theory Spec2Isabelle
  imports
    Complex_Main
    "HOL-Library.Word"
    "HOL-Library.Char_ord"
    "HOL-Library.List_Lexorder"
begin

section \<open>The kinematic model, as findJointModelGroup reads it\<close>

text \<open>
  The capability of \<^verbatim>\<open>execute_task_solution_capability.cpp\<close> reads three things of a
  joint model (\<^verbatim>\<open>isPassive()\<close>, \<^verbatim>\<open>getMimic()\<close>, \<^verbatim>\<open>getType()\<close>), two of a joint model group
  (\<^verbatim>\<open>getName()\<close>, \<^verbatim>\<open>getJointModelNames()\<close>) and two of the robot model
  (\<^verbatim>\<open>getJointModelGroups()\<close>, in registration order, and \<^verbatim>\<open>getJointModel(name)\<close>, a pointer
  that is null for an unknown name).
\<close>

datatype JointType = UNKNOWN | REVOLUTE | PRISMATIC | PLANAR | FLOATING | FIXED

record JointModel =
  isPassive :: bool
  getMimic :: "string option"
  getType :: JointType

record JointModelGroup =
  getName :: string
  getJointModelNames :: "string list"

record RobotModel =
  getJointModelGroups :: "JointModelGroup list"
  getJointModel :: "string \<Rightarrow> JointModel option"

text \<open>Dereferencing the null pointer of an unknown joint ends the process.\<close>

datatype crash = NullPointerDereference

subsection \<open>The three operations on \<^verbatim>\<open>std::set<std::string>\<close>\<close>

text \<open>
  A \<^verbatim>\<open>std::set<std::string>\<close> built from a range holds each string once, in ascending
  (lexicographic, bytewise) order. \<^verbatim>\<open>std::includes\<close> and \<^verbatim>\<open>std::set_difference\<close> are used on
  two such sets only, where they decide inclusion and compute the difference, the latter
  in the order of its first argument.
\<close>

definition std_set :: "string list \<Rightarrow> string list" where
  "std_set xs = sort (remdups xs)"

definition std_includes :: "string list \<Rightarrow> string list \<Rightarrow> bool" where
  "std_includes a b = list_all (\<lambda>x. x \<in> set a) b"

definition std_set_difference :: "string list \<Rightarrow> string list \<Rightarrow> string list" where
  "std_set_difference a b = filter (\<lambda>x. x \<notin> set b) a"

subsection \<open>findJointModelGroup (lines 52 to 79)\<close>

text \<open>
  The inner loop over \<^verbatim>\<open>difference\<close>. The counter \<^verbatim>\<open>acceptable\<close> is an \<^verbatim>\<open>unsigned int\<close>:
  a 32-bit word whose increment wraps.
\<close>

fun count_acceptable :: "RobotModel \<Rightarrow> string list \<Rightarrow> 32 word \<Rightarrow> crash + 32 word" where
  "count_acceptable model [] acceptable = Inr acceptable"
| "count_acceptable model (diff_joint # rest) acceptable =
     (case getJointModel model diff_joint of
        None \<Rightarrow> Inl NullPointerDereference
      | Some diff_jm \<Rightarrow>
          count_acceptable model rest
            (if isPassive diff_jm \<or> getMimic diff_jm \<noteq> None \<or> getType diff_jm = FIXED
             then acceptable + 1 else acceptable))"

text \<open>
  The outer loop over the groups. \<^verbatim>\<open>difference.size() == acceptable\<close> compares a \<^verbatim>\<open>size_t\<close>
  with the counter converted to \<^verbatim>\<open>size_t\<close>, so the counter is read as the number it holds.
\<close>

fun find_in_groups ::
  "RobotModel \<Rightarrow> string list \<Rightarrow> JointModelGroup list \<Rightarrow> crash + JointModelGroup option" where
  "find_in_groups model joint_set [] = Inr None"
| "find_in_groups model joint_set (jmg # jmgs) =
     (let jmg_joint_set = std_set (getJointModelNames jmg) in
      if std_includes jmg_joint_set joint_set then
        (let difference = std_set_difference jmg_joint_set joint_set in
         case count_acceptable model difference 0 of
           Inl c \<Rightarrow> Inl c
         | Inr acceptable \<Rightarrow>
             if length difference = unat acceptable then Inr (Some jmg)
             else find_in_groups model joint_set jmgs)
      else find_in_groups model joint_set jmgs)"

definition findJointModelGroup ::
  "RobotModel \<Rightarrow> string list \<Rightarrow> crash + JointModelGroup option" where
  "findJointModelGroup model joints =
     find_in_groups model (std_set joints) (getJointModelGroups model)"

section \<open>Messages\<close>

text \<open>
  The message types are declared outside this file; the records keep the fields the
  capability reads or resets. Payloads it never inspects (poses, shapes, matrices) are
  abbreviated to lists. A default-constructed message has every field empty, zero or false.
\<close>

record Header =
  stamp :: nat
  frame_id :: string

record JointState =
  js_header :: Header
  js_name :: "string list"
  js_position :: "real list"
  js_velocity :: "real list"
  js_effort :: "real list"

record MultiDOFJointState =
  mdjs_header :: Header
  mdjs_joint_names :: "string list"
  mdjs_transforms :: "real list list"
  mdjs_twist :: "real list list"
  mdjs_wrench :: "real list list"

record RobotStateMsg =
  joint_state :: JointState
  multi_dof_joint_state :: MultiDOFJointState
  attached_collision_objects :: "string list"
  rs_is_diff :: bool

record PlanningScene =
  ps_name :: string
  robot_state :: RobotStateMsg
  robot_model_name :: string
  fixed_frame_transforms :: "string list"
  allowed_collision_matrix :: "string list"
  link_padding :: "string list"
  link_scale :: "string list"
  object_colors :: "string list"
  ps_world :: "string list"
  ps_is_diff :: bool

record JointTrajectory =
  jt_joint_names :: "string list"
  jt_points :: "real list list"

record MultiDOFJointTrajectory =
  mdjt_joint_names :: "string list"
  mdjt_points :: "real list list"

record RobotTrajectoryMsg =
  joint_trajectory :: JointTrajectory
  multi_dof_joint_trajectory :: MultiDOFJointTrajectory

record ExecutionInfo =
  controller_names :: "string list"

record SubTrajectory =
  trajectory :: RobotTrajectoryMsg
  scene_diff :: PlanningScene
  execution_info :: ExecutionInfo

record Solution =
  sub_trajectory :: "SubTrajectory list"

definition empty_Header :: Header where
  "empty_Header = \<lparr>stamp = 0, frame_id = []\<rparr>"

text \<open>\<^verbatim>\<open>sensor_msgs::JointState()\<close> and \<^verbatim>\<open>sensor_msgs::MultiDOFJointState()\<close>.\<close>

definition empty_JointState :: JointState where
  "empty_JointState =
     \<lparr>js_header = empty_Header, js_name = [], js_position = [], js_velocity = [],
      js_effort = []\<rparr>"

definition empty_MultiDOFJointState :: MultiDOFJointState where
  "empty_MultiDOFJointState =
     \<lparr>mdjs_header = empty_Header, mdjs_joint_names = [], mdjs_transforms = [],
      mdjs_twist = [], mdjs_wrench = []\<rparr>"

text \<open>The values of \<^verbatim>\<open>moveit_msgs::MoveItErrorCodes\<close> the capability names.\<close>

definition SUCCESS :: int where "SUCCESS = 1"
definition INVALID_MOTION_PLAN :: int where "INVALID_MOTION_PLAN = - 2"
definition CONTROL_FAILED :: int where "CONTROL_FAILED = - 4"
definition PREEMPTED :: int where "PREEMPTED = - 7"

section \<open>Observable behaviour: the trace of calls\<close>

text \<open>
  What the capability does to its collaborators is recorded as a trace, in program order:
  taking the read lock on the planning scene, each call of \<^verbatim>\<open>findJointModelGroup\<close>, the
  log lines, handing the plan to \<^verbatim>\<open>executeAndMonitor\<close>, each segment the engine starts,
  each published feedback (\<^verbatim>\<open>sub_id\<close>, \<^verbatim>\<open>sub_no\<close>, as the numbers assigned to them), each scene
  message submitted, and the terminal calls of the action server (error code, response
  text). The preemption callback only asks the engine to stop; it shows in what the engine
  returns.
\<close>

datatype event =
    LockedPlanningSceneRO
  | FindJointModelGroup "string list"
  | RosError string
  | RosInfo string
  | RosDebug string
  | ExecuteAndMonitor "string list"
  | ExecuteSegment string
  | PublishFeedback nat nat
  | NewPlanningSceneMessage PlanningScene
  | SetSucceeded int string
  | SetPreempted int string
  | SetAborted int string

text \<open>
  The state threaded through execution: the trace, and the goal message's sub-trajectories,
  which the completion effects mutate through their captured reference
  \<^verbatim>\<open>&scene_diff = const_cast<...>(sub_traj.scene_diff)\<close>.
\<close>

record exec_state =
  trace :: "event list"
  goal_sub_trajectory :: "SubTrajectory list"

definition emit :: "event \<Rightarrow> exec_state \<Rightarrow> exec_state" where
  "emit e w = w\<lparr>trace := trace w @ [e]\<rparr>"

section \<open>The plan and the collaborators\<close>

text \<open>
  A \<^verbatim>\<open>RobotTrajectory\<close> is made by \<^verbatim>\<open>RobotTrajectory(model, group)\<close> and
  \<^verbatim>\<open>setRobotTrajectoryMsg(state, msg)\<close>; it is kept as the three things it was made from.
  A freshly emplaced \<^verbatim>\<open>ExecutableTrajectory\<close> has a null trajectory and an empty effect.
  Its members \<^verbatim>\<open>trajectory_\<close>, \<^verbatim>\<open>description_\<close>, \<^verbatim>\<open>controller_names_\<close> and \<^verbatim>\<open>effect_on_success_\<close>
  are the fields \<open>exec_...\<close> below; \<^verbatim>\<open>plan_components_\<close> and \<^verbatim>\<open>plan_execution_\<close> lose their
  trailing underscore.
\<close>

record 's RobotTrajectory =
  rt_group :: "JointModelGroup option"
  rt_reference_state :: 's
  rt_msg :: RobotTrajectoryMsg

record 's ExecutableTrajectory =
  exec_trajectory :: "'s RobotTrajectory option"
  exec_description :: string
  exec_controller_names :: "string list"
  exec_effect_on_success :: "(exec_state \<Rightarrow> bool \<times> exec_state) option"

record 's ExecutableMotionPlan =
  plan_components :: "'s ExecutableTrajectory list"

text \<open>
  The collaborators, taken as parameters; \<open>'s\<close> is the type of \<^verbatim>\<open>moveit::core::RobotState\<close>.
  \<^item> \<open>plan_execution\<close>: the execution engine (\<^verbatim>\<open>executeAndMonitor\<close>), absent when trajectory
    execution is disallowed; it returns the aggregate error code;
  \<^item> \<open>getRobotModel\<close>, \<open>getCurrentState\<close>: the planning scene monitor's model and the state
    read under the lock;
  \<^item> \<open>newPlanningSceneMessage\<close>: the scene update, whose answer may depend on what happened
    before;
  \<^item> \<open>isEmpty_PlanningScene\<close>, \<open>isEmpty_RobotState\<close>: the two overloads of
    \<^verbatim>\<open>moveit::core::isEmpty\<close>;
  \<^item> \<open>robotStateMsgToRobotState\<close>: returns whether the message applied, and the state it left;
  \<^item> \<open>toString\<close>: \<^verbatim>\<open>MoveItErrorCode::toString\<close>.
\<close>

record 's MoveGroupContext =
  plan_execution ::
    "('s ExecutableMotionPlan \<Rightarrow> exec_state \<Rightarrow> int \<times> exec_state) option"
  getRobotModel :: RobotModel
  getCurrentState :: 's
  newPlanningSceneMessage :: "event list \<Rightarrow> PlanningScene \<Rightarrow> bool"
  isEmpty_PlanningScene :: "PlanningScene \<Rightarrow> bool"
  isEmpty_RobotState :: "RobotStateMsg \<Rightarrow> bool"
  robotStateMsgToRobotState :: "RobotStateMsg \<Rightarrow> 's \<Rightarrow> bool \<times> 's"
  toString :: "int \<Rightarrow> string"

section \<open>Strings\<close>

text \<open>\<^verbatim>\<open>std::to_string\<close> on an unsigned number, and \<^verbatim>\<open>rcpputils::join\<close>.\<close>

definition digit :: "nat \<Rightarrow> char" where
  "digit d = char_of (48 + d)"

function to_string :: "nat \<Rightarrow> string" where
  "to_string n = (if n < 10 then [digit n] else to_string (n div 10) @ [digit (n mod 10)])"
  by pat_completeness auto
termination
  by (relation "measure id") auto

declare to_string.simps [simp del]

fun join :: "string list \<Rightarrow> string \<Rightarrow> string" where
  "join [] delim = []"
| "join [x] delim = x"
| "join (x # y # ys) delim = x @ delim @ join (y # ys) delim"

section \<open>The completion effect (lines 170 to 189)\<close>

text \<open>Lines 180 to 182: the three assignments to the captured scene diff.\<close>

definition strip_joint_state :: "PlanningScene \<Rightarrow> PlanningScene" where
  "strip_joint_state diff =
     diff\<lparr>robot_state := (robot_state diff)
       \<lparr>joint_state := empty_JointState,
        multi_dof_joint_state := empty_MultiDOFJointState,
        rs_is_diff := True\<rparr>\<rparr>"

text \<open>
  The closure captures \<open>description\<close>, \<open>i\<close>, \<open>no\<close> by value and the scene diff of
  \<^verbatim>\<open>solution.sub_trajectory[i]\<close> by reference: the effect reads and writes entry \<open>i\<close> of
  the goal's sub-trajectories (\<open>diff\<close> is the referenced \<^verbatim>\<open>scene_diff\<close> after the assignments).
  The closure is made for \<open>i < no\<close> only and the goal keeps its \<open>no\<close> sub-trajectories, so
  entry \<open>i\<close> exists whenever the effect runs.
\<close>

definition effect_on_success ::
  "'s MoveGroupContext \<Rightarrow> string \<Rightarrow> nat \<Rightarrow> nat \<Rightarrow> exec_state \<Rightarrow> bool \<times> exec_state" where
  "effect_on_success ctx description i no w =
     (let w1 = emit (PublishFeedback i no) w;
          sub_traj = goal_sub_trajectory w1 ! i;
          diff = strip_joint_state (scene_diff sub_traj);
          w2 = w1\<lparr>goal_sub_trajectory :=
                 (goal_sub_trajectory w1)[i := sub_traj\<lparr>scene_diff := diff\<rparr>]\<rparr>
      in if \<not> isEmpty_PlanningScene ctx diff then
           (let w3 = emit (RosDebug (''apply effect of '' @ description)) w2
            in (newPlanningSceneMessage ctx (trace w3) diff,
                emit (NewPlanningSceneMessage diff) w3))
         else (True, w2))"

section \<open>constructMotionPlan (lines 128 to 200)\<close>

definition sub_trajectory_joint_names :: "SubTrajectory \<Rightarrow> string list" where
  "sub_trajectory_joint_names sub_traj =
     jt_joint_names (joint_trajectory (trajectory sub_traj)) @
     mdjt_joint_names (multi_dof_joint_trajectory (trajectory sub_traj))"

text \<open>
  Lines 166 to 196 of the loop body, once \<^verbatim>\<open>group\<close> is known (\<open>grp\<close>, \<open>None\<close> for the
  null pointer). The result says whether the loop goes on (\<open>False\<close> is
  \<^verbatim>\<open>return false\<close>), and gives the component as it stands in the plan, the running state
  and the trace. The last argument \<^verbatim>\<open>true\<close> of \<^verbatim>\<open>robotStateMsgToRobotState\<close> is part of the
  collaborator.
\<close>

definition bind_component ::
  "'s MoveGroupContext \<Rightarrow> nat \<Rightarrow> nat \<Rightarrow> SubTrajectory \<Rightarrow> string \<Rightarrow> JointModelGroup option \<Rightarrow> 's \<Rightarrow>
   event list \<Rightarrow> bool \<times> 's ExecutableTrajectory \<times> 's \<times> event list" where
  "bind_component ctx no i sub_traj description grp state tr =
     (let exec_traj =
            \<lparr>exec_trajectory = Some \<lparr>rt_group = grp, rt_reference_state = state,
                                  rt_msg = trajectory sub_traj\<rparr>,
             exec_description = description,
             exec_controller_names = controller_names (execution_info sub_traj),
             exec_effect_on_success = Some (effect_on_success ctx description i no)\<rparr>
      in if \<not> isEmpty_RobotState ctx (robot_state (scene_diff sub_traj)) then
           (case robotStateMsgToRobotState ctx (robot_state (scene_diff sub_traj)) state of
              (applied, state') \<Rightarrow>
                if \<not> applied then
                  (False, exec_traj, state',
                   tr @ [RosError (''invalid intermediate robot state in scene diff of SubTrajectory ''
                                   @ description)])
                else (True, exec_traj, state', tr))
         else (True, exec_traj, state, tr))"

text \<open>Lines 140 to 165, then the rest of the body.\<close>

definition construct_component ::
  "'s MoveGroupContext \<Rightarrow> nat \<Rightarrow> nat \<Rightarrow> SubTrajectory \<Rightarrow> 's \<Rightarrow> event list \<Rightarrow>
   crash + (bool \<times> 's ExecutableTrajectory \<times> 's \<times> event list)" where
  "construct_component ctx no i sub_traj state tr =
     (let description = to_string (i + 1) @ ''/'' @ to_string no;
          exec_traj = \<lparr>exec_trajectory = None, exec_description = description,
                       exec_controller_names = [], exec_effect_on_success = None\<rparr>;
          joint_names = sub_trajectory_joint_names sub_traj
      in if joint_names \<noteq> [] then
           (case findJointModelGroup (getRobotModel ctx) joint_names of
              Inl c \<Rightarrow> Inl c
            | Inr None \<Rightarrow>
                Inr (False, exec_traj, state,
                     tr @ [FindJointModelGroup joint_names,
                           RosError (''Could not find JointModelGroup that actuates {''
                                     @ join joint_names '', '' @ ''}'')])
            | Inr (Some grp) \<Rightarrow>
                Inr (bind_component ctx no i sub_traj description (Some grp) state
                       (tr @ [FindJointModelGroup joint_names,
                              RosDebug (''Using JointModelGroup '' @ [CHR 0x27] @ getName grp
                                        @ [CHR 0x27] @ '' for execution'')])))
         else Inr (bind_component ctx no i sub_traj description None state tr))"

text \<open>
  The loop \<^verbatim>\<open>for (size_t i = 0; i < solution.sub_trajectory.size(); ++i)\<close>: the list is what is
  left of \<^verbatim>\<open>solution.sub_trajectory\<close> from index \<open>i\<close> on, \<open>no\<close> is its full size.
\<close>

fun construct_loop ::
  "'s MoveGroupContext \<Rightarrow> nat \<Rightarrow> nat \<Rightarrow> SubTrajectory list \<Rightarrow> 's \<Rightarrow> 's ExecutableTrajectory list \<Rightarrow>
   event list \<Rightarrow> crash + (bool \<times> 's ExecutableTrajectory list \<times> event list)" where
  "construct_loop ctx no i [] state components tr = Inr (True, components, tr)"
| "construct_loop ctx no i (sub_traj # rest) state components tr =
     (case construct_component ctx no i sub_traj state tr of
        Inl c \<Rightarrow> Inl c
      | Inr (continue, exec_traj, state', tr') \<Rightarrow>
          if continue then
            construct_loop ctx no (i + 1) rest state' (components @ [exec_traj]) tr'
          else Inr (False, components @ [exec_traj], tr'))"

definition constructMotionPlan ::
  "'s MoveGroupContext \<Rightarrow> Solution \<Rightarrow> 's ExecutableMotionPlan \<Rightarrow> event list \<Rightarrow>
   crash + (bool \<times> 's ExecutableMotionPlan \<times> event list)" where
  "constructMotionPlan ctx solution plan tr =
     (case construct_loop ctx (length (sub_trajectory solution)) 0 (sub_trajectory solution)
             (getCurrentState ctx) (plan_components plan) (tr @ [LockedPlanningSceneRO]) of
        Inl c \<Rightarrow> Inl c
      | Inr (ok, components, tr') \<Rightarrow> Inr (ok, plan\<lparr>plan_components := components\<rparr>, tr'))"

section \<open>execCallback (lines 95 to 121)\<close>

record ExecuteTaskSolutionGoal =
  solution :: Solution

text \<open>Lines 114 to 120: the terminal call chosen by the error code.\<close>

definition set_result :: "int \<Rightarrow> string \<Rightarrow> exec_state \<Rightarrow> exec_state" where
  "set_result val response w =
     (if val = SUCCESS then emit (SetSucceeded val response) w
      else if val = PREEMPTED then emit (SetPreempted val response) w
      else emit (SetAborted val response) w)"

definition execCallback :: "'s MoveGroupContext \<Rightarrow> ExecuteTaskSolutionGoal \<Rightarrow> crash + exec_state" where
  "execCallback ctx goal =
     (let w0 = \<lparr>trace = [], goal_sub_trajectory = sub_trajectory (solution goal)\<rparr> in
      case plan_execution ctx of
        None \<Rightarrow>
          Inr (emit (SetAborted CONTROL_FAILED
                       ''Cannot execute solution. ~allow_trajectory_execution was set to false'')
                 w0)
      | Some executeAndMonitor \<Rightarrow>
          (case constructMotionPlan ctx (solution goal) \<lparr>plan_components = []\<rparr> (trace w0) of
             Inl c \<Rightarrow> Inl c
           | Inr (ok, plan, tr) \<Rightarrow>
               (case (if \<not> ok then (INVALID_MOTION_PLAN, w0\<lparr>trace := tr\<rparr>)
                      else executeAndMonitor plan
                             (w0\<lparr>trace := tr @ [RosInfo ''Executing TaskSolution'',
                                                ExecuteAndMonitor
                                                  (map exec_description (plan_components plan))]\<rparr>))
                of (val, w) \<Rightarrow> Inr (set_result val (toString ctx val) w))))"

section \<open>The execution engine\<close>

text \<open>
  Modelled from the spec: \<^verbatim>\<open>plan_execution::PlanExecution::executeAndMonitor\<close> is a collaborator
  whose code is not part of this file. Its contract (sections 4.4 and 6 of the
  specification): it executes the segments in order, invokes each segment's completion
  effect after that segment's individual success, and returns one aggregate status, success
  when the whole plan has finished. \<open>segment_status k\<close> is what executing segment \<open>k\<close>
  yields (a stop request shows here as the preemption code), and \<open>effect_failure\<close> is the
  status the engine reports when an effect returns false.
\<close>

fun run_components ::
  "(nat \<Rightarrow> int) \<Rightarrow> int \<Rightarrow> nat \<Rightarrow> 's ExecutableTrajectory list \<Rightarrow> exec_state \<Rightarrow> int \<times> exec_state" where
  "run_components segment_status effect_failure k [] w = (SUCCESS, w)"
| "run_components segment_status effect_failure k (component # rest) w =
     (let w1 = emit (ExecuteSegment (exec_description component)) w in
      if segment_status k \<noteq> SUCCESS then (segment_status k, w1)
      else
        (case exec_effect_on_success component of
           None \<Rightarrow> run_components segment_status effect_failure (k + 1) rest w1
         | Some effect \<Rightarrow>
             (case effect w1 of
                (ok, w2) \<Rightarrow>
                  if ok then run_components segment_status effect_failure (k + 1) rest w2
                  else (effect_failure, w2))))"

definition engine_model ::
  "(nat \<Rightarrow> int) \<Rightarrow> int \<Rightarrow> 's ExecutableMotionPlan \<Rightarrow> exec_state \<Rightarrow> int \<times> exec_state" where
  "engine_model segment_status effect_failure plan w =
     run_components segment_status effect_failure 0 (plan_components plan) w"

section \<open>Vocabulary of the properties\<close>

subsection \<open>Groups that match a joint set\<close>

text \<open>
  A joint outside the required set is tolerated when it is passive, mimics another joint or
  is fixed. A group matches a required set when it contains the set and every other joint
  of the group is tolerated.
\<close>

definition tolerated :: "RobotModel \<Rightarrow> string \<Rightarrow> bool" where
  "tolerated model j =
     (case getJointModel model j of
        None \<Rightarrow> False
      | Some jm \<Rightarrow> isPassive jm \<or> getMimic jm \<noteq> None \<or> getType jm = FIXED)"

definition group_matches :: "RobotModel \<Rightarrow> string set \<Rightarrow> JointModelGroup \<Rightarrow> bool" where
  "group_matches model required jmg =
     (required \<subseteq> set (getJointModelNames jmg) \<and>
      (\<forall>j \<in> set (getJointModelNames jmg) - required. tolerated model j))"

text \<open>
  Two facts about every model the capability can hold. The groups of a robot model are made
  of joints of that model, so \<^verbatim>\<open>getJointModel\<close> finds every joint a group names. And a group
  has fewer than \<open>2 ^ 32\<close> joints, so the 32-bit counter \<^verbatim>\<open>acceptable\<close> holds their number.
\<close>

definition known_joints :: "RobotModel \<Rightarrow> bool" where
  "known_joints model =
     (\<forall>jmg \<in> set (getJointModelGroups model).
        \<forall>j \<in> set (getJointModelNames jmg). getJointModel model j \<noteq> None)"

definition groups_fit_counter :: "RobotModel \<Rightarrow> bool" where
  "groups_fit_counter model =
     (\<forall>jmg \<in> set (getJointModelGroups model). length (getJointModelNames jmg) < 2 ^ 32)"

subsection \<open>Reading a trace\<close>

text \<open>
  The calls of \<^verbatim>\<open>findJointModelGroup\<close> with their arguments, the feedback messages as pairs
  (\<^verbatim>\<open>sub_id\<close>, \<^verbatim>\<open>sub_no\<close>), and the scene messages submitted, each in order of occurrence.
\<close>

fun resolver_calls :: "event list \<Rightarrow> string list list" where
  "resolver_calls [] = []"
| "resolver_calls (FindJointModelGroup joints # es) = joints # resolver_calls es"
| "resolver_calls (e # es) = resolver_calls es"

fun feedbacks :: "event list \<Rightarrow> (nat \<times> nat) list" where
  "feedbacks [] = []"
| "feedbacks (PublishFeedback sub_id sub_no # es) = (sub_id, sub_no) # feedbacks es"
| "feedbacks (e # es) = feedbacks es"

fun submissions :: "event list \<Rightarrow> PlanningScene list" where
  "submissions [] = []"
| "submissions (NewPlanningSceneMessage m # es) = m # submissions es"
| "submissions (e # es) = submissions es"

text \<open>
  The descriptions of the segments the engine started, in order. And whether every scene
  message submitted in a trace was accepted: \<open>accepted ctx before es\<close> asks the monitor about
  each submission in \<open>es\<close>, with the history the effect asked it with, that is \<open>before\<close>
  and the events of \<open>es\<close> up to the submission.
\<close>

fun executed_segments :: "event list \<Rightarrow> string list" where
  "executed_segments [] = []"
| "executed_segments (ExecuteSegment description # es) = description # executed_segments es"
| "executed_segments (e # es) = executed_segments es"

fun accepted :: "'s MoveGroupContext \<Rightarrow> event list \<Rightarrow> event list \<Rightarrow> bool" where
  "accepted ctx before [] = True"
| "accepted ctx before (NewPlanningSceneMessage msg # es) =
     (newPlanningSceneMessage ctx before msg \<and>
      accepted ctx (before @ [NewPlanningSceneMessage msg]) es)"
| "accepted ctx before (e # es) = accepted ctx (before @ [e]) es"

text \<open>
  The terminal calls of the action server; what the engine is handed and runs; and what
  \<open>constructMotionPlan\<close> alone can emit.
\<close>

fun is_terminal :: "event \<Rightarrow> bool" where
  "is_terminal (SetSucceeded val response) = True"
| "is_terminal (SetPreempted val response) = True"
| "is_terminal (SetAborted val response) = True"
| "is_terminal e = False"

fun is_engine_event :: "event \<Rightarrow> bool" where
  "is_engine_event (ExecuteAndMonitor ds) = True"
| "is_engine_event (ExecuteSegment d) = True"
| "is_engine_event e = False"

fun is_build_event :: "event \<Rightarrow> bool" where
  "is_build_event LockedPlanningSceneRO = True"
| "is_build_event (FindJointModelGroup joints) = True"
| "is_build_event (RosError msg) = True"
| "is_build_event (RosDebug msg) = True"
| "is_build_event e = False"

datatype outcome = Succeeded | Preempted | Aborted

fun terminal_outcome :: "event \<Rightarrow> (outcome \<times> int \<times> string) option" where
  "terminal_outcome (SetSucceeded val response) = Some (Succeeded, val, response)"
| "terminal_outcome (SetPreempted val response) = Some (Preempted, val, response)"
| "terminal_outcome (SetAborted val response) = Some (Aborted, val, response)"
| "terminal_outcome e = None"

subsection \<open>Failures of the build\<close>

text \<open>
  A sub-trajectory fails resolution when it names joints and no group is found for them. Its
  scene diff fails when its robot state is not empty and does not apply to the running
  state. The running state before segment \<open>k\<close> is the current state advanced by the scene
  diffs of the segments before it.
\<close>

definition resolution_fails :: "'s MoveGroupContext \<Rightarrow> SubTrajectory \<Rightarrow> bool" where
  "resolution_fails ctx sub_traj =
     (sub_trajectory_joint_names sub_traj \<noteq> [] \<and>
      findJointModelGroup (getRobotModel ctx) (sub_trajectory_joint_names sub_traj) = Inr None)"

definition diff_fails :: "'s MoveGroupContext \<Rightarrow> SubTrajectory \<Rightarrow> 's \<Rightarrow> bool" where
  "diff_fails ctx sub_traj state =
     (\<not> isEmpty_RobotState ctx (robot_state (scene_diff sub_traj)) \<and>
      \<not> fst (robotStateMsgToRobotState ctx (robot_state (scene_diff sub_traj)) state))"

definition segment_fails :: "'s MoveGroupContext \<Rightarrow> SubTrajectory \<Rightarrow> 's \<Rightarrow> bool" where
  "segment_fails ctx sub_traj state = (resolution_fails ctx sub_traj \<or> diff_fails ctx sub_traj state)"

definition advance :: "'s MoveGroupContext \<Rightarrow> 's \<Rightarrow> SubTrajectory \<Rightarrow> 's" where
  "advance ctx state sub_traj =
     (if isEmpty_RobotState ctx (robot_state (scene_diff sub_traj)) then state
      else snd (robotStateMsgToRobotState ctx (robot_state (scene_diff sub_traj)) state))"

definition running_state :: "'s MoveGroupContext \<Rightarrow> 's \<Rightarrow> SubTrajectory list \<Rightarrow> nat \<Rightarrow> 's" where
  "running_state ctx state subs k = foldl (advance ctx) state (take k subs)"

text \<open>
  The description \<^verbatim>\<open>i+1/N\<close> of segment \<open>i\<close>, the text of the error logged when no group is
  found, and the response of a goal refused because execution is disabled.
\<close>

definition label :: "nat \<Rightarrow> nat \<Rightarrow> string" where
  "label i no = to_string (i + 1) @ ''/'' @ to_string no"

definition not_found_message :: "string list \<Rightarrow> string" where
  "not_found_message joint_names =
     ''Could not find JointModelGroup that actuates {'' @ join joint_names '', '' @ ''}''"

definition disabled_response :: string where
  "disabled_response = ''Cannot execute solution. ~allow_trajectory_execution was set to false''"

text \<open>
  What the loop of \<open>constructMotionPlan\<close> has produced when it returns: \<open>new\<close> are the
  components it appended, \<open>ev\<close> the events it emitted.
\<close>

definition loop_post ::
  "'s MoveGroupContext \<Rightarrow> nat \<Rightarrow> nat \<Rightarrow> SubTrajectory list \<Rightarrow> 's \<Rightarrow> bool \<Rightarrow>
   's ExecutableTrajectory list \<Rightarrow> event list \<Rightarrow> bool" where
  "loop_post ctx no i subs state ok new ev =
     (length new \<le> length subs \<and>
      ok = (\<not> (\<exists>k < length subs. segment_fails ctx (subs ! k) (running_state ctx state subs k))) \<and>
      (ok \<longrightarrow> length new = length subs) \<and>
      list_all is_build_event ev \<and>
      resolver_calls ev =
        filter (\<lambda>joints. joints \<noteq> []) (map sub_trajectory_joint_names (take (length new) subs)) \<and>
      (\<forall>k < length new. sub_trajectory_joint_names (subs ! k) = [] \<longrightarrow>
         (\<exists>rt. exec_trajectory (new ! k) = Some rt \<and> rt_group rt = None)) \<and>
      (ok \<longrightarrow> (\<forall>k < length new.
         exec_effect_on_success (new ! k) = Some (effect_on_success ctx (label (i + k) no) (i + k) no) \<and>
         exec_description (new ! k) = label (i + k) no)))"

text \<open>
  The components of a plan whose effects, where set, are closures made by
  \<open>constructMotionPlan\<close>; and the state in which \<open>execCallback\<close> hands a plan to the engine.
\<close>

definition built_effects :: "'s MoveGroupContext \<Rightarrow> 's ExecutableTrajectory list \<Rightarrow> bool" where
  "built_effects ctx components =
     (\<forall>c \<in> set components.
        exec_effect_on_success c = None \<or>
        (\<exists>description i no. exec_effect_on_success c = Some (effect_on_success ctx description i no)))"

definition handed_over :: "'s ExecutableMotionPlan \<Rightarrow> event list \<Rightarrow> SubTrajectory list \<Rightarrow> exec_state" where
  "handed_over plan tr subs =
     \<lparr>trace = tr @ [RosInfo ''Executing TaskSolution'',
                     ExecuteAndMonitor (map exec_description (plan_components plan))],
      goal_sub_trajectory = subs\<rparr>"

section \<open>A small robot and some goals\<close>

text \<open>
  The concrete inputs used to exercise the theorems: an arm of two revolute joints with a
  fixed tool mount and a passive caster, and a gripper whose second finger mimics the first.
  The group \<open>arm_with_tool\<close> is registered before the smaller group \<open>arm\<close>.
\<close>

definition example_joints :: "(string \<times> JointModel) list" where
  "example_joints =
     [(''shoulder'', \<lparr>isPassive = False, getMimic = None, getType = REVOLUTE\<rparr>),
      (''elbow'', \<lparr>isPassive = False, getMimic = None, getType = REVOLUTE\<rparr>),
      (''tool_mount'', \<lparr>isPassive = False, getMimic = None, getType = FIXED\<rparr>),
      (''caster'', \<lparr>isPassive = True, getMimic = None, getType = REVOLUTE\<rparr>),
      (''finger'', \<lparr>isPassive = False, getMimic = None, getType = PRISMATIC\<rparr>),
      (''finger_mirror'', \<lparr>isPassive = False, getMimic = Some ''finger'', getType = PRISMATIC\<rparr>)]"

definition arm_with_tool :: JointModelGroup where
  "arm_with_tool =
     \<lparr>getName = ''arm_with_tool'',
      getJointModelNames = [''shoulder'', ''elbow'', ''tool_mount'', ''caster'']\<rparr>"

definition arm :: JointModelGroup where
  "arm = \<lparr>getName = ''arm'', getJointModelNames = [''shoulder'', ''elbow'']\<rparr>"

definition gripper :: JointModelGroup where
  "gripper = \<lparr>getName = ''gripper'', getJointModelNames = [''finger'', ''finger_mirror'']\<rparr>"

definition example_model :: RobotModel where
  "example_model =
     \<lparr>getJointModelGroups = [arm_with_tool, arm, gripper],
      getJointModel = map_of example_joints\<rparr>"

text \<open>
  Default-constructed messages, and collaborators for the examples: emptiness checks that
  look at every field but the robot state's header, a state that is the list of attached
  objects (attaching an object without a name fails), a scene monitor that accepts every
  message, and a \<open>toString\<close> that names the four codes.
\<close>

definition empty_RobotStateMsg :: RobotStateMsg where
  "empty_RobotStateMsg =
     \<lparr>joint_state = empty_JointState, multi_dof_joint_state = empty_MultiDOFJointState,
      attached_collision_objects = [], rs_is_diff = False\<rparr>"

definition empty_PlanningScene :: PlanningScene where
  "empty_PlanningScene =
     \<lparr>ps_name = [], robot_state = empty_RobotStateMsg, robot_model_name = [],
      fixed_frame_transforms = [], allowed_collision_matrix = [], link_padding = [],
      link_scale = [], object_colors = [], ps_world = [], ps_is_diff = False\<rparr>"

definition example_isEmpty_RobotState :: "RobotStateMsg \<Rightarrow> bool" where
  "example_isEmpty_RobotState msg =
     (rs_is_diff msg \<and> mdjs_joint_names (multi_dof_joint_state msg) = [] \<and>
      js_name (joint_state msg) = [] \<and> attached_collision_objects msg = [] \<and>
      js_position (joint_state msg) = [] \<and> js_velocity (joint_state msg) = [] \<and>
      js_effort (joint_state msg) = [] \<and> mdjs_transforms (multi_dof_joint_state msg) = [] \<and>
      mdjs_twist (multi_dof_joint_state msg) = [] \<and> mdjs_wrench (multi_dof_joint_state msg) = [])"

definition example_isEmpty_PlanningScene :: "PlanningScene \<Rightarrow> bool" where
  "example_isEmpty_PlanningScene msg =
     (ps_name msg = [] \<and> fixed_frame_transforms msg = [] \<and> allowed_collision_matrix msg = [] \<and>
      link_padding msg = [] \<and> link_scale msg = [] \<and>
      example_isEmpty_RobotState (robot_state msg) \<and> ps_world msg = [])"

definition example_apply :: "RobotStateMsg \<Rightarrow> string list \<Rightarrow> bool \<times> string list" where
  "example_apply msg attached =
     (if [] \<in> set (attached_collision_objects msg) then (False, attached)
      else (True, attached @ attached_collision_objects msg))"

definition example_toString :: "int \<Rightarrow> string" where
  "example_toString val =
     (if val = SUCCESS then ''SUCCESS''
      else if val = PREEMPTED then ''PREEMPTED''
      else if val = INVALID_MOTION_PLAN then ''INVALID_MOTION_PLAN''
      else if val = CONTROL_FAILED then ''CONTROL_FAILED''
      else ''FAILURE'')"

definition example_context ::
  "((string list) ExecutableMotionPlan \<Rightarrow> exec_state \<Rightarrow> int \<times> exec_state) option \<Rightarrow>
   (string list) MoveGroupContext" where
  "example_context engine =
     \<lparr>plan_execution = engine,
      getRobotModel = example_model,
      getCurrentState = [],
      newPlanningSceneMessage = (\<lambda>tr msg. True),
      isEmpty_PlanningScene = example_isEmpty_PlanningScene,
      isEmpty_RobotState = example_isEmpty_RobotState,
      robotStateMsgToRobotState = example_apply,
      toString = example_toString\<rparr>"

text \<open>The same collaborators with a scene monitor that refuses every message.\<close>

definition refusing_context ::
  "((string list) ExecutableMotionPlan \<Rightarrow> exec_state \<Rightarrow> int \<times> exec_state) option \<Rightarrow>
   (string list) MoveGroupContext" where
  "refusing_context engine =
     (example_context engine)\<lparr>newPlanningSceneMessage := (\<lambda>tr msg. False)\<rparr>"

text \<open>
  Scene diffs: one without content, one that attaches an object, and one whose only content
  is a joint state. \<open>move joints diff\<close> is a sub-trajectory over \<open>joints\<close> with that diff.
\<close>

definition no_diff :: PlanningScene where
  "no_diff = empty_PlanningScene
     \<lparr>robot_state := empty_RobotStateMsg\<lparr>rs_is_diff := True\<rparr>, ps_is_diff := True\<rparr>"

definition attach_diff :: "string \<Rightarrow> PlanningScene" where
  "attach_diff object = no_diff
     \<lparr>robot_state := (robot_state no_diff)\<lparr>attached_collision_objects := [object]\<rparr>\<rparr>"


definition move :: "string list \<Rightarrow> PlanningScene \<Rightarrow> SubTrajectory" where
  "move joints diff =
     \<lparr>trajectory = \<lparr>joint_trajectory = \<lparr>jt_joint_names = joints, jt_points = []\<rparr>,
                     multi_dof_joint_trajectory = \<lparr>mdjt_joint_names = [], mdjt_points = []\<rparr>\<rparr>,
      scene_diff = diff,
      execution_info = \<lparr>controller_names = []\<rparr>\<rparr>"

definition example_goal :: "SubTrajectory list \<Rightarrow> ExecuteTaskSolutionGoal" where
  "example_goal subs = \<lparr>solution = \<lparr>sub_trajectory = subs\<rparr>\<rparr>"

text \<open>
  Two engines, instances of \<open>engine_model\<close>: one on which every segment succeeds, one that
  is stopped during the first segment. Then the final state of a run on the second, and a
  solution of two segments with the plan and trace built from it, and a solution whose
  second segment names joints of two different groups.
\<close>

definition always_succeeds :: "(string list) ExecutableMotionPlan \<Rightarrow> exec_state \<Rightarrow> int \<times> exec_state" where
  "always_succeeds = engine_model (\<lambda>k. SUCCESS) PREEMPTED"

definition stops_at_once :: "(string list) ExecutableMotionPlan \<Rightarrow> exec_state \<Rightarrow> int \<times> exec_state" where
  "stops_at_once = engine_model (\<lambda>k. PREEMPTED) PREEMPTED"

text \<open>An engine, not an instance of the model, that reports preemption whatever the plan.\<close>

definition reports_preempted ::
  "(string list) ExecutableMotionPlan \<Rightarrow> exec_state \<Rightarrow> int \<times> exec_state" where
  "reports_preempted plan w = (PREEMPTED, w)"

definition preempted_run :: exec_state where
  "preempted_run =
     \<lparr>trace =
        [LockedPlanningSceneRO,
         FindJointModelGroup [''finger''],
         RosDebug (''Using JointModelGroup '' @ [CHR 0x27] @ ''gripper'' @ [CHR 0x27]
                   @ '' for execution''),
         RosInfo ''Executing TaskSolution'',
         ExecuteAndMonitor [''1/1''],
         ExecuteSegment ''1/1'',
         SetPreempted PREEMPTED ''PREEMPTED''],
      goal_sub_trajectory = [move [''finger''] no_diff]\<rparr>"

definition two_step_solution :: Solution where
  "two_step_solution = \<lparr>sub_trajectory = [move [] no_diff, move [''finger''] no_diff]\<rparr>"

definition two_step_plan :: "(string list) ExecutableMotionPlan" where
  "two_step_plan =
     \<lparr>plan_components =
        [\<lparr>exec_trajectory = Some \<lparr>rt_group = None, rt_reference_state = [],
                                   rt_msg = trajectory (move [] no_diff)\<rparr>,
          exec_description = ''1/2'', exec_controller_names = [],
          exec_effect_on_success = Some (effect_on_success (example_context None) ''1/2'' 0 2)\<rparr>,
         \<lparr>exec_trajectory = Some \<lparr>rt_group = Some gripper, rt_reference_state = [],
                                   rt_msg = trajectory (move [''finger''] no_diff)\<rparr>,
          exec_description = ''2/2'', exec_controller_names = [],
          exec_effect_on_success = Some (effect_on_success (example_context None) ''2/2'' 1 2)\<rparr>]\<rparr>"

definition two_step_trace :: "event list" where
  "two_step_trace =
     [LockedPlanningSceneRO, FindJointModelGroup [''finger''],
      RosDebug (''Using JointModelGroup '' @ [CHR 0x27] @ ''gripper'' @ [CHR 0x27]
                @ '' for execution'')]"

definition unresolvable_solution :: Solution where
  "unresolvable_solution =
     \<lparr>sub_trajectory = [move [''shoulder'', ''elbow''] no_diff,
                        move [''elbow'', ''finger''] no_diff]\<rparr>"

section \<open>Lemmas\<close>

subsection \<open>Sets and the counter\<close>

lemma set_std_set: "set (std_set xs) = set xs"
  by (simp add: std_set_def)

lemma length_std_set_le: "length (std_set xs) \<le> length xs"
  by (simp add: std_set_def length_remdups_leq)

lemma std_includes_iff: "std_includes a b \<longleftrightarrow> set b \<subseteq> set a"
  by (auto simp: std_includes_def list_all_iff)

lemma set_std_set_difference: "set (std_set_difference a b) = set a - set b"
  by (auto simp: std_set_difference_def)

lemma length_std_set_difference_le: "length (std_set_difference a b) \<le> length a"
  by (simp add: std_set_difference_def)

lemma count_acceptable_known:
  "\<forall>j \<in> set js. getJointModel model j \<noteq> None \<Longrightarrow>
   count_acceptable model js acc = Inr (acc + of_nat (length (filter (tolerated model) js)))"
proof (induction js arbitrary: acc)
  case Nil
  then show ?case by simp
next
  case (Cons j js)
  then obtain jm where jm: "getJointModel model j = Some jm" by auto
  from Cons have IH: "\<And>a. count_acceptable model js a =
      Inr (a + of_nat (length (filter (tolerated model) js)))" by simp
  have t: "tolerated model j \<longleftrightarrow> isPassive jm \<or> getMimic jm \<noteq> None \<or> getType jm = FIXED"
    by (simp add: tolerated_def jm)
  show ?case by (simp add: jm IH t)
qed

lemma length_filter_eq_iff: "length (filter P xs) = length xs \<longleftrightarrow> (\<forall>x \<in> set xs. P x)"
proof (induction xs)
  case Nil
  then show ?case by simp
next
  case (Cons x xs)
  have "length (filter P xs) \<le> length xs" by simp
  then have "length (filter P xs) \<noteq> Suc (length xs)" by arith
  with Cons show ?case by simp
qed

lemma counter_reads_count:
  assumes "length js < 2 ^ 32"
  shows "unat (of_nat (length (filter P js)) :: 32 word) = length (filter P js)"
proof -
  have "length (filter P js) < 2 ^ 32"
    by (rule le_less_trans [OF length_filter_le assms])
  then have "length (filter P js) < 2 ^ LENGTH(32)" by simp
  then show ?thesis by (simp add: unat_of_nat take_bit_nat_eq_self)
qed

lemma find_in_groups_find:
  assumes "\<forall>jmg \<in> set jmgs. \<forall>j \<in> set (getJointModelNames jmg). getJointModel model j \<noteq> None"
    and "\<forall>jmg \<in> set jmgs. length (getJointModelNames jmg) < 2 ^ 32"
  shows "find_in_groups model (std_set joints) jmgs =
         Inr (List.find (group_matches model (set joints)) jmgs)"
  using assms
proof (induction jmgs)
  case Nil
  then show ?case by simp
next
  case (Cons jmg jmgs)
  let ?gs = "std_set (getJointModelNames jmg)"
  let ?d = "std_set_difference ?gs (std_set joints)"
  have IH: "find_in_groups model (std_set joints) jmgs =
         Inr (List.find (group_matches model (set joints)) jmgs)"
    using Cons by simp
  have known: "\<forall>j \<in> set ?d. getJointModel model j \<noteq> None"
    using Cons.prems(1) by (simp add: set_std_set_difference set_std_set)
  have "length ?d \<le> length (getJointModelNames jmg)"
    using length_std_set_difference_le length_std_set_le le_trans by blast
  with Cons.prems(2) have small: "length ?d < 2 ^ 32" by simp
  have cnt: "count_acceptable model ?d 0 = Inr (of_nat (length (filter (tolerated model) ?d)))"
    using count_acceptable_known [OF known, of 0] by simp
  have all: "length ?d = unat (of_nat (length (filter (tolerated model) ?d)) :: 32 word)
      \<longleftrightarrow> (\<forall>j \<in> set ?d. tolerated model j)"
    by (simp only: counter_reads_count [OF small, of "tolerated model"]
        length_filter_eq_iff [of "tolerated model" ?d, symmetric] eq_commute)
  have m: "group_matches model (set joints) jmg \<longleftrightarrow>
      std_includes ?gs (std_set joints) \<and> (\<forall>j \<in> set ?d. tolerated model j)"
    by (simp add: group_matches_def std_includes_iff set_std_set set_std_set_difference)
  show ?case
  proof (cases "std_includes ?gs (std_set joints)")
    case False
    with m IH show ?thesis by simp
  next
    case True
    show ?thesis
    proof (cases "\<forall>j \<in> set ?d. tolerated model j")
      case True
      with \<open>std_includes ?gs (std_set joints)\<close> m cnt all show ?thesis by (simp add: Let_def)
    next
      case False
      with \<open>std_includes ?gs (std_set joints)\<close> m cnt all IH show ?thesis by (simp add: Let_def)
    qed
  qed
qed

lemma findJointModelGroup_returns:
  assumes "known_joints model"
  shows "\<exists>r. findJointModelGroup model joints = Inr r"
proof -
  have "\<forall>jmg \<in> set jmgs. \<forall>j \<in> set (getJointModelNames jmg). getJointModel model j \<noteq> None
        \<Longrightarrow> \<exists>r. find_in_groups model joint_set jmgs = Inr r" for jmgs joint_set
  proof (induction jmgs)
    case Nil
    then show ?case by simp
  next
    case (Cons jmg jmgs)
    let ?d = "std_set_difference (std_set (getJointModelNames jmg)) joint_set"
    have "\<forall>j \<in> set ?d. getJointModel model j \<noteq> None"
      using Cons.prems by (simp add: set_std_set_difference set_std_set)
    then have cnt: "count_acceptable model ?d 0 = Inr (of_nat (length (filter (tolerated model) ?d)))"
      using count_acceptable_known [of ?d model 0] by simp
    from Cons obtain r where "find_in_groups model joint_set jmgs = Inr r" by auto
    with cnt show ?case by (simp add: Let_def)
  qed
  with assms show ?thesis by (simp add: findJointModelGroup_def known_joints_def)
qed

subsection \<open>Traces\<close>

lemma resolver_calls_append: "resolver_calls (a @ b) = resolver_calls a @ resolver_calls b"
  by (induction a rule: resolver_calls.induct) simp_all

lemma feedbacks_append: "feedbacks (a @ b) = feedbacks a @ feedbacks b"
  by (induction a rule: feedbacks.induct) simp_all

lemma submissions_append: "submissions (a @ b) = submissions a @ submissions b"
  by (induction a rule: submissions.induct) simp_all

lemma executed_segments_append:
  "executed_segments (a @ b) = executed_segments a @ executed_segments b"
  by (induction a rule: executed_segments.induct) simp_all

lemma accepted_append:
  "accepted ctx before (a @ b) \<longleftrightarrow> accepted ctx before a \<and> accepted ctx (before @ a) b"
proof (induction a arbitrary: before)
  case Nil
  show ?case by simp
next
  case (Cons e a)
  show ?case by (cases e) (simp_all add: Cons.IH)
qed

lemma accepted_submission:
  assumes "accepted ctx [] (a @ NewPlanningSceneMessage msg # b)"
  shows "newPlanningSceneMessage ctx a msg"
  using assms by (simp add: accepted_append)

lemma build_events_silent:
  "list_all is_build_event ev \<Longrightarrow>
   filter is_terminal ev = [] \<and> feedbacks ev = [] \<and> submissions ev = [] \<and>
   filter is_engine_event ev = []"
proof (induction ev)
  case Nil
  then show ?case by simp
next
  case (Cons e ev)
  then show ?case by (cases e) simp_all
qed

subsection \<open>One iteration of the build loop\<close>

lemma build_events_no_segment:
  "list_all is_build_event ev \<Longrightarrow> executed_segments ev = []"
proof (induction ev)
  case Nil
  then show ?case by simp
next
  case (Cons e ev)
  then show ?case by (cases e) simp_all
qed

lemma bind_component_eq:
  "bind_component ctx no i sub_traj description grp state tr =
     (\<not> diff_fails ctx sub_traj state,
      \<lparr>exec_trajectory = Some \<lparr>rt_group = grp, rt_reference_state = state,
                                rt_msg = trajectory sub_traj\<rparr>,
       exec_description = description,
       exec_controller_names = controller_names (execution_info sub_traj),
       exec_effect_on_success = Some (effect_on_success ctx description i no)\<rparr>,
      advance ctx state sub_traj,
      tr @ (if diff_fails ctx sub_traj state
            then [RosError (''invalid intermediate robot state in scene diff of SubTrajectory ''
                            @ description)]
            else []))"
  by (simp add: bind_component_def diff_fails_def advance_def Let_def split: prod.splits)

lemma construct_component_no_joints:
  assumes "sub_trajectory_joint_names sub_traj = []"
  shows "construct_component ctx no i sub_traj state tr =
         Inr (bind_component ctx no i sub_traj (label i no) None state tr)"
  using assms by (simp add: construct_component_def label_def Let_def)

lemma construct_component_not_found:
  assumes "resolution_fails ctx sub_traj"
  shows "construct_component ctx no i sub_traj state tr =
         Inr (False,
              \<lparr>exec_trajectory = None, exec_description = label i no,
               exec_controller_names = [], exec_effect_on_success = None\<rparr>,
              state,
              tr @ [FindJointModelGroup (sub_trajectory_joint_names sub_traj),
                    RosError (not_found_message (sub_trajectory_joint_names sub_traj))])"
  using assms
  by (simp add: construct_component_def resolution_fails_def label_def not_found_message_def Let_def)

lemma construct_component_found:
  assumes "sub_trajectory_joint_names sub_traj \<noteq> []"
    and "findJointModelGroup (getRobotModel ctx) (sub_trajectory_joint_names sub_traj) = Inr (Some grp)"
  shows "construct_component ctx no i sub_traj state tr =
         Inr (bind_component ctx no i sub_traj (label i no) (Some grp) state
                (tr @ [FindJointModelGroup (sub_trajectory_joint_names sub_traj),
                       RosDebug (''Using JointModelGroup '' @ [CHR 0x27] @ getName grp
                                 @ [CHR 0x27] @ '' for execution'')]))"
  using assms by (simp add: construct_component_def label_def Let_def)

text \<open>
  The four ways an iteration can end.
\<close>

lemma construct_component_cases:
  obtains
    (crashed) c where "construct_component ctx no i sub_traj state tr = Inl c"
  | (no_joints) "sub_trajectory_joint_names sub_traj = []"
      "\<not> resolution_fails ctx sub_traj"
      "construct_component ctx no i sub_traj state tr =
         Inr (bind_component ctx no i sub_traj (label i no) None state tr)"
  | (not_found) "sub_trajectory_joint_names sub_traj \<noteq> []"
      "resolution_fails ctx sub_traj"
      "construct_component ctx no i sub_traj state tr =
         Inr (False,
              \<lparr>exec_trajectory = None, exec_description = label i no,
               exec_controller_names = [], exec_effect_on_success = None\<rparr>,
              state,
              tr @ [FindJointModelGroup (sub_trajectory_joint_names sub_traj),
                    RosError (not_found_message (sub_trajectory_joint_names sub_traj))])"
  | (found) grp where "sub_trajectory_joint_names sub_traj \<noteq> []"
      "\<not> resolution_fails ctx sub_traj"
      "construct_component ctx no i sub_traj state tr =
         Inr (bind_component ctx no i sub_traj (label i no) (Some grp) state
                (tr @ [FindJointModelGroup (sub_trajectory_joint_names sub_traj),
                       RosDebug (''Using JointModelGroup '' @ [CHR 0x27] @ getName grp
                                 @ [CHR 0x27] @ '' for execution'')]))"
proof (cases "sub_trajectory_joint_names sub_traj = []")
  case True
  then have "\<not> resolution_fails ctx sub_traj" by (simp add: resolution_fails_def)
  then show ?thesis
    by (rule no_joints [OF True _ construct_component_no_joints [OF True]])
next
  case False
  show ?thesis
  proof (cases "findJointModelGroup (getRobotModel ctx) (sub_trajectory_joint_names sub_traj)")
    case (Inl c)
    with False have "construct_component ctx no i sub_traj state tr = Inl c"
      by (simp add: construct_component_def Let_def)
    then show ?thesis using crashed by blast
  next
    case (Inr r)
    show ?thesis
    proof (cases r)
      case None
      with Inr False have rf: "resolution_fails ctx sub_traj" by (simp add: resolution_fails_def)
      show ?thesis
        by (rule not_found [OF False rf construct_component_not_found [OF rf]])
    next
      case (Some grp)
      with Inr have "\<not> resolution_fails ctx sub_traj" by (simp add: resolution_fails_def)
      then show ?thesis
        using Inr Some by (intro found [OF False _ construct_component_found [OF False]]) simp_all
    qed
  qed
qed

lemma construct_component_returns:
  assumes "known_joints (getRobotModel ctx)"
  shows "\<exists>r. construct_component ctx no i sub_traj state tr = Inr r"
proof -
  obtain r where "findJointModelGroup (getRobotModel ctx) (sub_trajectory_joint_names sub_traj) = Inr r"
    using findJointModelGroup_returns [OF assms] by blast
  then show ?thesis
    by (cases r) (simp_all add: construct_component_def Let_def del: split_paired_Ex)
qed

text \<open>
  What one iteration yields, whenever it returns.
\<close>

lemma construct_component_Inr:
  assumes "construct_component ctx no i sub_traj state tr = Inr (continue, exec_traj, state', tr')"
  shows "continue = (\<not> segment_fails ctx sub_traj state)"
    and "continue \<longrightarrow> state' = advance ctx state sub_traj"
    and "\<exists>ev. tr' = tr @ ev \<and> list_all is_build_event ev \<and>
           resolver_calls ev = (if sub_trajectory_joint_names sub_traj = [] then []
                               else [sub_trajectory_joint_names sub_traj])"
    and "sub_trajectory_joint_names sub_traj = [] \<longrightarrow>
           (\<exists>rt. exec_trajectory exec_traj = Some rt \<and> rt_group rt = None)"
    and "continue \<longrightarrow> exec_effect_on_success exec_traj = Some (effect_on_success ctx (label i no) i no)
           \<and> exec_description exec_traj = label i no"
    and "resolution_fails ctx sub_traj \<longrightarrow>
           (\<exists>ev. tr' = ev @ [RosError (not_found_message (sub_trajectory_joint_names sub_traj))])"
proof -
  have "continue = (\<not> segment_fails ctx sub_traj state) \<and>
    (continue \<longrightarrow> state' = advance ctx state sub_traj) \<and>
    (\<exists>ev. tr' = tr @ ev \<and> list_all is_build_event ev \<and>
           resolver_calls ev = (if sub_trajectory_joint_names sub_traj = [] then []
                               else [sub_trajectory_joint_names sub_traj])) \<and>
    (sub_trajectory_joint_names sub_traj = [] \<longrightarrow>
           (\<exists>rt. exec_trajectory exec_traj = Some rt \<and> rt_group rt = None)) \<and>
    (continue \<longrightarrow> exec_effect_on_success exec_traj = Some (effect_on_success ctx (label i no) i no)
           \<and> exec_description exec_traj = label i no) \<and>
    (resolution_fails ctx sub_traj \<longrightarrow>
           (\<exists>ev. tr' = ev @ [RosError (not_found_message (sub_trajectory_joint_names sub_traj))]))"
  proof (cases rule: construct_component_cases [of ctx no i sub_traj state tr])
    case (crashed c)
    with assms show ?thesis by simp
  next
    case no_joints
    with assms show ?thesis
      by (auto simp: bind_component_eq segment_fails_def)
  next
    case not_found
    with assms show ?thesis
      by (auto simp: segment_fails_def)
  next
    case (found grp)
    with assms show ?thesis
      by (auto simp: bind_component_eq segment_fails_def)
  qed
  then show "continue = (\<not> segment_fails ctx sub_traj state)"
    and "continue \<longrightarrow> state' = advance ctx state sub_traj"
    and "\<exists>ev. tr' = tr @ ev \<and> list_all is_build_event ev \<and>
           resolver_calls ev = (if sub_trajectory_joint_names sub_traj = [] then []
                               else [sub_trajectory_joint_names sub_traj])"
    and "sub_trajectory_joint_names sub_traj = [] \<longrightarrow>
           (\<exists>rt. exec_trajectory exec_traj = Some rt \<and> rt_group rt = None)"
    and "continue \<longrightarrow> exec_effect_on_success exec_traj = Some (effect_on_success ctx (label i no) i no)
           \<and> exec_description exec_traj = label i no"
    and "resolution_fails ctx sub_traj \<longrightarrow>
           (\<exists>ev. tr' = ev @ [RosError (not_found_message (sub_trajectory_joint_names sub_traj))])"
    by blast+
qed

subsection \<open>The build loop\<close>

lemma running_state_0: "running_state ctx state subs 0 = state"
  by (simp add: running_state_def)

lemma running_state_Suc:
  "running_state ctx state (sub_traj # rest) (Suc k) =
   running_state ctx (advance ctx state sub_traj) rest k"
  by (simp add: running_state_def)

lemma ex_less_Suc: "(\<exists>k < Suc n. P k) \<longleftrightarrow> P 0 \<or> (\<exists>k < n. P (Suc k))"
  by (metis less_Suc_eq_0_disj)

lemma all_less_Suc: "(\<forall>k < Suc n. P k) \<longleftrightarrow> P 0 \<and> (\<forall>k < n. P (Suc k))"
  by (metis less_Suc_eq_0_disj)

lemma loop_post_stop:
  assumes "construct_component ctx no i sub_traj state tr = Inr (False, exec_traj, state', tr')"
  shows "\<exists>ev. tr' = tr @ ev \<and> loop_post ctx no i (sub_traj # rest) state False [exec_traj] ev"
proof -
  note c = construct_component_Inr [OF assms]
  from c(3) obtain ev where ev: "tr' = tr @ ev" "list_all is_build_event ev"
    "resolver_calls ev = (if sub_trajectory_joint_names sub_traj = [] then []
                               else [sub_trajectory_joint_names sub_traj])" by blast
  have "segment_fails ctx sub_traj state" using c(1) by simp
  then have "\<exists>k < length (sub_traj # rest).
      segment_fails ctx ((sub_traj # rest) ! k) (running_state ctx state (sub_traj # rest) k)"
    by (intro exI [of _ 0]) (simp add: running_state_0)
  then have "loop_post ctx no i (sub_traj # rest) state False [exec_traj] ev"
    unfolding loop_post_def using ev(2,3) c(4) by simp
  with ev(1) show ?thesis by blast
qed

lemma loop_post_step:
  assumes comp: "construct_component ctx no i sub_traj state tr = Inr (True, exec_traj, state', tr1)"
    and rest: "loop_post ctx no (i + 1) rest state' ok new ev2"
  shows "\<exists>ev1. tr1 = tr @ ev1 \<and>
           loop_post ctx no i (sub_traj # rest) state ok (exec_traj # new) (ev1 @ ev2)"
proof -
  note c = construct_component_Inr [OF comp]
  from c(3) obtain ev1 where ev1: "tr1 = tr @ ev1" "list_all is_build_event ev1"
    "resolver_calls ev1 = (if sub_trajectory_joint_names sub_traj = [] then []
                               else [sub_trajectory_joint_names sub_traj])" by blast
  have ok0: "\<not> segment_fails ctx sub_traj state" using c(1) by simp
  have st: "state' = advance ctx state sub_traj" using c(2) by simp
  have eff: "exec_effect_on_success exec_traj = Some (effect_on_success ctx (label i no) i no)"
    "exec_description exec_traj = label i no" using c(5) by simp_all
  have grp: "sub_trajectory_joint_names sub_traj = [] \<longrightarrow>
           (\<exists>rt. exec_trajectory exec_traj = Some rt \<and> rt_group rt = None)" by (rule c(4))
  note r = rest [unfolded loop_post_def]
  have 1: "length (exec_traj # new) \<le> length (sub_traj # rest)" using r by simp
  have 2: "ok = (\<not> (\<exists>k < length (sub_traj # rest).
      segment_fails ctx ((sub_traj # rest) ! k) (running_state ctx state (sub_traj # rest) k)))"
    using r ok0 by (simp add: ex_less_Suc running_state_0 running_state_Suc st)
  have 3: "ok \<longrightarrow> length (exec_traj # new) = length (sub_traj # rest)" using r by simp
  have 4: "list_all is_build_event (ev1 @ ev2)" using r ev1(2) by simp
  have 5: "resolver_calls (ev1 @ ev2) =
        filter (\<lambda>joints. joints \<noteq> [])
          (map sub_trajectory_joint_names (take (length (exec_traj # new)) (sub_traj # rest)))"
    using r ev1(3) by (simp add: resolver_calls_append)
  have 6: "\<forall>k < length (exec_traj # new). sub_trajectory_joint_names ((sub_traj # rest) ! k) = [] \<longrightarrow>
         (\<exists>rt. exec_trajectory ((exec_traj # new) ! k) = Some rt \<and> rt_group rt = None)"
    using r grp by (simp add: all_less_Suc)
  have 7: "ok \<longrightarrow> (\<forall>k < length (exec_traj # new).
         exec_effect_on_success ((exec_traj # new) ! k) =
           Some (effect_on_success ctx (label (i + k) no) (i + k) no) \<and>
         exec_description ((exec_traj # new) ! k) = label (i + k) no)"
    using r eff by (simp add: all_less_Suc)
  have "loop_post ctx no i (sub_traj # rest) state ok (exec_traj # new) (ev1 @ ev2)"
    unfolding loop_post_def using 1 2 3 4 5 6 7 by blast
  with ev1(1) show ?thesis by blast
qed

lemma construct_loop_Inr:
  assumes "construct_loop ctx no i subs state components tr = Inr (ok, components', tr')"
  shows "\<exists>new ev. components' = components @ new \<and> tr' = tr @ ev \<and>
           loop_post ctx no i subs state ok new ev"
  using assms
proof (induction subs arbitrary: i state components tr)
  case Nil
  then have "components' = components @ [] \<and> tr' = tr @ [] \<and> loop_post ctx no i [] state ok [] []"
    by (simp add: loop_post_def)
  then show ?case by blast
next
  case (Cons sub_traj rest)
  from Cons.prems obtain continue exec_traj state' tr1 where
    comp: "construct_component ctx no i sub_traj state tr = Inr (continue, exec_traj, state', tr1)"
    by (auto split: sum.splits)
  show ?case
  proof (cases continue)
    case False
    with Cons.prems comp have res: "ok = False" "components' = components @ [exec_traj]" "tr' = tr1"
      by simp_all
    from comp False have
      "construct_component ctx no i sub_traj state tr = Inr (False, exec_traj, state', tr1)"
      by simp
    from loop_post_stop [OF this, of rest] res show ?thesis by blast
  next
    case True
    with Cons.prems comp have
      "construct_loop ctx no (i + 1) rest state' (components @ [exec_traj]) tr1 =
       Inr (ok, components', tr')" by simp
    from Cons.IH [OF this] obtain new ev2 where
      n: "components' = (components @ [exec_traj]) @ new" "tr' = tr1 @ ev2"
        "loop_post ctx no (i + 1) rest state' ok new ev2" by blast
    from comp True have
      "construct_component ctx no i sub_traj state tr = Inr (True, exec_traj, state', tr1)"
      by simp
    from loop_post_step [OF this n(3)] obtain ev1 where
      "tr1 = tr @ ev1" "loop_post ctx no i (sub_traj # rest) state ok (exec_traj # new) (ev1 @ ev2)"
      by blast
    with n(1,2) have "components' = components @ (exec_traj # new) \<and> tr' = tr @ (ev1 @ ev2) \<and>
        loop_post ctx no i (sub_traj # rest) state ok (exec_traj # new) (ev1 @ ev2)" by simp
    then show ?thesis by blast
  qed
qed

lemma construct_loop_returns:
  assumes "known_joints (getRobotModel ctx)"
  shows "\<exists>r. construct_loop ctx no i subs state components tr = Inr r"
proof (induction subs arbitrary: i state components tr)
  case Nil
  show ?case by (simp del: split_paired_Ex)
next
  case (Cons sub_traj rest)
  obtain continue exec_traj state' tr1 where
    comp: "construct_component ctx no i sub_traj state tr = Inr (continue, exec_traj, state', tr1)"
    using construct_component_returns [OF assms, of no i sub_traj state tr] by (metis prod_cases4)
  show ?case
  proof (cases continue)
    case True
    with comp Cons.IH [of "i + 1" state' "components @ [exec_traj]" tr1] show ?thesis
      by (simp del: split_paired_Ex)
  next
    case False
    with comp show ?thesis by (simp del: split_paired_Ex)
  qed
qed

lemma join_names_each:
  "j \<in> set joint_names \<Longrightarrow> \<exists>a b. join joint_names delim = a @ j @ b"
proof (induction joint_names delim rule: join.induct)
  case (1 delim)
  then show ?case by simp
next
  case (2 x delim)
  then have "join [x] delim = [] @ j @ []" by simp
  then show ?case by blast
next
  case (3 x y ys delim)
  show ?case
  proof (cases "j = x")
    case True
    then have "join (x # y # ys) delim = [] @ j @ (delim @ join (y # ys) delim)" by simp
    then show ?thesis by blast
  next
    case False
    with 3 obtain a b where "join (y # ys) delim = a @ j @ b" by auto
    then have "join (x # y # ys) delim = (x @ delim @ a) @ j @ b" by simp
    then show ?thesis by blast
  qed
qed

lemma not_found_message_names:
  assumes "j \<in> set joint_names"
  shows "\<exists>a b. not_found_message joint_names = a @ j @ b"
proof -
  from join_names_each [OF assms] obtain a b where "join joint_names '', '' = a @ j @ b"
    by blast
  then have "not_found_message joint_names =
      (''Could not find JointModelGroup that actuates {'' @ a) @ j @ (b @ ''}'')"
    by (simp add: not_found_message_def)
  then show ?thesis by blast
qed

lemma construct_loop_first_failure:
  assumes "known_joints (getRobotModel ctx)"
    and "k < length subs"
    and "\<forall>j < k. \<not> segment_fails ctx (subs ! j) (running_state ctx state subs j)"
    and "segment_fails ctx (subs ! k) (running_state ctx state subs k)"
  shows "\<exists>components' tr'.
           construct_loop ctx no i subs state components tr = Inr (False, components', tr') \<and>
           length components' = length components + Suc k \<and>
           (resolution_fails ctx (subs ! k) \<longrightarrow>
              last tr' = RosError (not_found_message (sub_trajectory_joint_names (subs ! k))))"
  using assms(2-4)
proof (induction subs arbitrary: k i state components tr)
  case Nil
  then show ?case by simp
next
  case (Cons sub_traj rest)
  obtain continue exec_traj state' tr1 where
    comp: "construct_component ctx no i sub_traj state tr = Inr (continue, exec_traj, state', tr1)"
    using construct_component_returns [OF assms(1), of no i sub_traj state tr] by (metis prod_cases4)
  note c = construct_component_Inr [OF comp]
  show ?case
  proof (cases k)
    case 0
    with Cons.prems(3) have f: "segment_fails ctx sub_traj state" by (simp add: running_state_0)
    with c(1) have "\<not> continue" by simp
    with comp have run: "construct_loop ctx no i (sub_traj # rest) state components tr =
        Inr (False, components @ [exec_traj], tr1)" by simp
    have "resolution_fails ctx sub_traj \<longrightarrow>
        last tr1 = RosError (not_found_message (sub_trajectory_joint_names sub_traj))"
      using c(6) by auto
    with run 0 show ?thesis by simp
  next
    case (Suc k')
    from Cons.prems(2) have "\<not> segment_fails ctx sub_traj state"
      unfolding Suc by (auto simp: running_state_0 dest: spec [of _ 0])
    with c(1,2) have cont: continue and st: "state' = advance ctx state sub_traj" by simp_all
    have 1: "k' < length rest" using Cons.prems(1) Suc by simp
    have 2: "\<forall>j < k'. \<not> segment_fails ctx (rest ! j) (running_state ctx state' rest j)"
    proof (intro allI impI)
      fix j assume "j < k'"
      then have "Suc j < k" using Suc by simp
      with Cons.prems(2) show "\<not> segment_fails ctx (rest ! j) (running_state ctx state' rest j)"
        by (auto simp: running_state_Suc st dest: spec [of _ "Suc j"])
    qed
    have 3: "segment_fails ctx (rest ! k') (running_state ctx state' rest k')"
      using Cons.prems(3) Suc by (simp add: running_state_Suc st)
    from Cons.IH [OF 1 2 3, of "i + 1" "components @ [exec_traj]" tr1] obtain components' tr' where
      r: "construct_loop ctx no (i + 1) rest state' (components @ [exec_traj]) tr1 =
            Inr (False, components', tr')"
        "length components' = length (components @ [exec_traj]) + Suc k'"
        "resolution_fails ctx (rest ! k') \<longrightarrow>
           last tr' = RosError (not_found_message (sub_trajectory_joint_names (rest ! k')))"
      by blast
    have "construct_loop ctx no i (sub_traj # rest) state components tr =
        Inr (False, components', tr')" using comp cont r(1) by simp
    with r(2,3) Suc show ?thesis by simp
  qed
qed

lemma constructMotionPlan_Inr:
  assumes "constructMotionPlan ctx sol plan tr = Inr (ok, plan', tr')"
  shows "\<exists>new ev. plan_components plan' = plan_components plan @ new \<and>
           tr' = tr @ LockedPlanningSceneRO # ev \<and>
           loop_post ctx (length (sub_trajectory sol)) 0 (sub_trajectory sol)
             (getCurrentState ctx) ok new ev"
proof -
  from assms obtain components' where
    l: "construct_loop ctx (length (sub_trajectory sol)) 0 (sub_trajectory sol)
          (getCurrentState ctx) (plan_components plan) (tr @ [LockedPlanningSceneRO]) =
        Inr (ok, components', tr')"
    and p: "plan' = plan\<lparr>plan_components := components'\<rparr>"
    by (auto simp: constructMotionPlan_def split: sum.splits)
  from construct_loop_Inr [OF l] p show ?thesis by auto
qed

lemma constructMotionPlan_returns:
  assumes "known_joints (getRobotModel ctx)"
  shows "\<exists>ok plan' tr'. constructMotionPlan ctx sol plan tr = Inr (ok, plan', tr')"
proof -
  obtain ok components' tr' where
    "construct_loop ctx (length (sub_trajectory sol)) 0 (sub_trajectory sol)
          (getCurrentState ctx) (plan_components plan) (tr @ [LockedPlanningSceneRO]) =
        Inr (ok, components', tr')"
    using construct_loop_returns [OF assms] by (metis prod_cases3)
  then show ?thesis by (simp add: constructMotionPlan_def)
qed

subsection \<open>Effects and the engine\<close>

lemma effect_on_success_trace:
  "trace (snd (effect_on_success ctx description i no w)) =
     trace w @ PublishFeedback i no #
       (if isEmpty_PlanningScene ctx (strip_joint_state (scene_diff (goal_sub_trajectory w ! i)))
        then []
        else [RosDebug (''apply effect of '' @ description),
              NewPlanningSceneMessage
                (strip_joint_state (scene_diff (goal_sub_trajectory w ! i)))])"
  by (simp add: effect_on_success_def emit_def Let_def)

lemma effect_on_success_result:
  "fst (effect_on_success ctx description i no w) =
     (if isEmpty_PlanningScene ctx (strip_joint_state (scene_diff (goal_sub_trajectory w ! i)))
      then True
      else newPlanningSceneMessage ctx
             (trace w @ [PublishFeedback i no, RosDebug (''apply effect of '' @ description)])
             (strip_joint_state (scene_diff (goal_sub_trajectory w ! i))))"
  by (simp add: effect_on_success_def emit_def Let_def)

lemma effect_on_success_goal:
  "goal_sub_trajectory (snd (effect_on_success ctx description i no w)) =
     (goal_sub_trajectory w)
       [i := (goal_sub_trajectory w ! i)
               \<lparr>scene_diff := strip_joint_state (scene_diff (goal_sub_trajectory w ! i))\<rparr>]"
  by (simp add: effect_on_success_def emit_def Let_def)

lemma effect_on_success_length:
  "length (goal_sub_trajectory (snd (effect_on_success ctx description i no w))) =
   length (goal_sub_trajectory w)"
  by (simp add: effect_on_success_goal)

lemma effect_on_success_events:
  assumes "effect_on_success ctx description i no w = (ok, w')"
  shows "\<exists>ev. trace w' = trace w @ ev \<and> feedbacks ev = [(i, no)] \<and> filter is_terminal ev = []"
proof -
  have "trace w' = trace (snd (effect_on_success ctx description i no w))"
    using assms by simp
  then show ?thesis
    unfolding effect_on_success_trace by (intro exI conjI, assumption) simp_all
qed

lemma run_components_no_terminal:
  assumes "built_effects ctx components"
    and "run_components segment_status effect_failure k components w = (val, w')"
  shows "\<exists>ev. trace w' = trace w @ ev \<and> filter is_terminal ev = []"
  using assms
proof (induction components arbitrary: k w)
  case Nil
  then show ?case by simp
next
  case (Cons c rest)
  let ?w1 = "emit (ExecuteSegment (exec_description c)) w"
  have b: "built_effects ctx rest" using Cons.prems(1) by (simp add: built_effects_def)
  have t1: "trace ?w1 = trace w @ [ExecuteSegment (exec_description c)]" by (simp add: emit_def)
  show ?case
  proof (cases "segment_status k = SUCCESS")
    case False
    with Cons.prems(2) have "w' = ?w1" by (simp add: Let_def)
    with t1 show ?thesis by simp
  next
    case True
    show ?thesis
    proof (cases "exec_effect_on_success c")
      case None
      with True Cons.prems(2) have
        "run_components segment_status effect_failure (k + 1) rest ?w1 = (val, w')"
        by (simp add: Let_def)
      from Cons.IH [OF b this] t1 show ?thesis by auto
    next
      case (Some effect)
      with Cons.prems(1) obtain description i no where
        e: "effect = effect_on_success ctx description i no"
        by (auto simp: built_effects_def)
      obtain ok w2 where r: "effect ?w1 = (ok, w2)" by (cases "effect ?w1")
      from effect_on_success_events [OF r [unfolded e]] obtain ev where
        ev: "trace w2 = trace ?w1 @ ev" "filter is_terminal ev = []" by blast
      show ?thesis
      proof (cases ok)
        case False
        with True Some r Cons.prems(2) have "w' = w2" by (simp add: Let_def)
        with ev t1 show ?thesis by simp
      next
        case ok: True
        with True Some r Cons.prems(2) have
          "run_components segment_status effect_failure (k + 1) rest w2 = (val, w')"
          by (simp add: Let_def)
        from Cons.IH [OF b this] ev t1 show ?thesis by auto
      qed
    qed
  qed
qed

lemma effect_on_success_no_segment:
  "executed_segments (trace (snd (effect_on_success ctx description i no w))) =
   executed_segments (trace w)"
  by (simp add: effect_on_success_trace executed_segments_append)

lemma run_components_accepted:
  fixes ctx :: "'s MoveGroupContext" and components :: "'s ExecutableTrajectory list"
  assumes "\<forall>j < length components.
             exec_effect_on_success (components ! j) =
               Some (effect_on_success ctx (label (i + j) no) (i + j) no) \<and>
             exec_description (components ! j) = label (i + j) no"
    and "\<forall>j < length components. segment_status (k + j) = SUCCESS"
    and "run_components segment_status effect_failure k components w = (val, w')"
    and "accepted ctx [] (trace w')"
  shows "val = SUCCESS \<and>
         (\<exists>ev. trace w' = trace w @ ev \<and>
            feedbacks ev = map (\<lambda>j. (j, no)) [i ..< i + length components] \<and>
            executed_segments ev = map (\<lambda>j. label j no) [i ..< i + length components] \<and>
            filter is_terminal ev = [])"
  using assms(1,2,3)
proof (induction components arbitrary: i k w)
  case Nil
  then show ?case by simp
next
  case (Cons c rest)
  let ?w1 = "emit (ExecuteSegment (exec_description c)) w"
  let ?e = "effect_on_success ctx (label i no) i no"
  let ?diff = "strip_joint_state (scene_diff (goal_sub_trajectory ?w1 ! i))"
  let ?asked = "trace ?w1 @ [PublishFeedback i no, RosDebug (''apply effect of '' @ label i no)]"
  have c: "exec_effect_on_success c = Some ?e" and d: "exec_description c = label i no"
    using Cons.prems(1) by (simp_all add: all_less_Suc)
  have s: "segment_status k = SUCCESS" using Cons.prems(2) by (simp add: all_less_Suc)
  have t1: "trace ?w1 = trace w @ [ExecuteSegment (label i no)]" by (simp add: emit_def d)
  have 1: "\<forall>j < length rest.
      exec_effect_on_success (rest ! j) =
        Some (effect_on_success ctx (label (Suc i + j) no) (Suc i + j) no) \<and>
      exec_description (rest ! j) = label (Suc i + j) no"
    using Cons.prems(1) by (simp add: all_less_Suc)
  have 2: "\<forall>j < length rest. segment_status (Suc k + j) = SUCCESS"
    using Cons.prems(2) by (simp add: all_less_Suc)
  from 1 have "\<forall>c' \<in> set rest. \<exists>description i no.
      exec_effect_on_success c' = Some (effect_on_success ctx description i no)"
    by (metis in_set_conv_nth)
  then have b: "built_effects ctx rest" by (simp add: built_effects_def)
  obtain ok w2 where r: "?e ?w1 = (ok, w2)" by (cases "?e ?w1")
  have w2: "w2 = snd (?e ?w1)" and ok_eq: "ok = fst (?e ?w1)" using r by simp_all
  have step: "run_components segment_status effect_failure k (c # rest) w =
      (if ok then run_components segment_status effect_failure (Suc k) rest w2
       else (effect_failure, w2))"
    using c s r by (simp add: Let_def)
  have "\<exists>post. trace w' = trace w2 @ post"
  proof (cases ok)
    case True
    with step Cons.prems(3) have
      "run_components segment_status effect_failure (Suc k) rest w2 = (val, w')" by simp
    from run_components_no_terminal [OF b this] show ?thesis by blast
  next
    case False
    with step Cons.prems(3) have "w' = w2" by simp
    then show ?thesis by simp
  qed
  then obtain post where post: "trace w' = trace w2 @ post" by blast
  have ok: ok
  proof (cases "isEmpty_PlanningScene ctx ?diff")
    case True
    then show ?thesis unfolding ok_eq effect_on_success_result by simp
  next
    case False
    then have "trace w2 = ?asked @ [NewPlanningSceneMessage ?diff]"
      unfolding w2 effect_on_success_trace by simp
    with post have "trace w' = ?asked @ NewPlanningSceneMessage ?diff # post" by simp
    with assms(4) have "newPlanningSceneMessage ctx ?asked ?diff"
      using accepted_submission by metis
    with False show ?thesis unfolding ok_eq effect_on_success_result by simp
  qed
  with step Cons.prems(3) have
    run: "run_components segment_status effect_failure (Suc k) rest w2 = (val, w')" by simp
  from Cons.IH [OF 1 2 run] obtain ev2 where
    v: "val = SUCCESS" and
    ev2: "trace w' = trace w2 @ ev2"
      "feedbacks ev2 = map (\<lambda>j. (j, no)) [Suc i ..< Suc i + length rest]"
      "executed_segments ev2 = map (\<lambda>j. label j no) [Suc i ..< Suc i + length rest]"
      "filter is_terminal ev2 = []" by blast
  from effect_on_success_events [OF r] obtain ev1 where
    ev1: "trace w2 = trace ?w1 @ ev1" "feedbacks ev1 = [(i, no)]" "filter is_terminal ev1 = []"
    by blast
  have "executed_segments (trace w2) = executed_segments (trace ?w1)"
    unfolding w2 by (rule effect_on_success_no_segment)
  with ev1(1) have seg1: "executed_segments ev1 = []"
    by (simp add: executed_segments_append)
  let ?ev = "ExecuteSegment (label i no) # ev1 @ ev2"
  have u: "[i ..< i + length (c # rest)] = i # [Suc i ..< Suc i + length rest]"
    by (subst upt_rec) simp
  have tr: "trace w' = trace w @ ?ev" using ev2(1) ev1(1) t1 by simp
  have "feedbacks ?ev = feedbacks ev1 @ feedbacks ev2" by (simp add: feedbacks_append)
  also have "\<dots> = (i, no) # map (\<lambda>j. (j, no)) [Suc i ..< Suc i + length rest]"
    by (simp only: ev1(2) ev2(2) append_Cons append_Nil)
  also have "\<dots> = map (\<lambda>j. (j, no)) [i ..< i + length (c # rest)]"
    by (simp only: u list.map)
  finally have fb: "feedbacks ?ev = map (\<lambda>j. (j, no)) [i ..< i + length (c # rest)]" .
  have "executed_segments ?ev = label i no # executed_segments ev1 @ executed_segments ev2"
    by (simp add: executed_segments_append)
  also have "\<dots> = label i no # map (\<lambda>j. label j no) [Suc i ..< Suc i + length rest]"
    by (simp only: seg1 ev2(3) append_Nil)
  also have "\<dots> = map (\<lambda>j. label j no) [i ..< i + length (c # rest)]"
    by (simp only: u list.map)
  finally have sg: "executed_segments ?ev = map (\<lambda>j. label j no) [i ..< i + length (c # rest)]" .
  have tm: "filter is_terminal ?ev = []" using ev1(3) ev2(4) by simp
  from v tr fb sg tm show ?case by blast
qed

lemma set_result_state:
  "\<exists>t state. set_result val response w = w\<lparr>trace := trace w @ [t]\<rparr> \<and>
     terminal_outcome t = Some (state, val, response) \<and>
     (state = Succeeded \<longleftrightarrow> val = SUCCESS) \<and>
     (state = Preempted \<longleftrightarrow> val = PREEMPTED) \<and>
     (state = Aborted \<longleftrightarrow> val \<noteq> SUCCESS \<and> val \<noteq> PREEMPTED)"
proof -
  consider "val = SUCCESS" | "val = PREEMPTED" | "val \<noteq> SUCCESS" "val \<noteq> PREEMPTED"
    by blast
  then show ?thesis
  proof cases
    case 1
    then have "set_result val response w = w\<lparr>trace := trace w @ [SetSucceeded val response]\<rparr> \<and>
        terminal_outcome (SetSucceeded val response) = Some (Succeeded, val, response) \<and>
        val \<noteq> PREEMPTED"
      by (simp add: set_result_def emit_def SUCCESS_def PREEMPTED_def)
    with 1 show ?thesis by (intro exI [of _ "SetSucceeded val response"] exI [of _ Succeeded]) simp
  next
    case 2
    then have "set_result val response w = w\<lparr>trace := trace w @ [SetPreempted val response]\<rparr> \<and>
        terminal_outcome (SetPreempted val response) = Some (Preempted, val, response) \<and>
        val \<noteq> SUCCESS"
      by (simp add: set_result_def emit_def SUCCESS_def PREEMPTED_def)
    with 2 show ?thesis by (intro exI [of _ "SetPreempted val response"] exI [of _ Preempted]) simp
  next
    case 3
    then have "set_result val response w = w\<lparr>trace := trace w @ [SetAborted val response]\<rparr> \<and>
        terminal_outcome (SetAborted val response) = Some (Aborted, val, response)"
      by (simp add: set_result_def emit_def)
    with 3 show ?thesis by (intro exI [of _ "SetAborted val response"] exI [of _ Aborted]) simp
  qed
qed

lemma terminal_outcome_Preempted:
  "terminal_outcome t = Some (Preempted, val, response) \<Longrightarrow> t = SetPreempted val response"
  by (cases t) simp_all

lemma built_effects_of_plan:
  assumes "constructMotionPlan ctx sol \<lparr>plan_components = []\<rparr> tr = Inr (True, plan, tr')"
  shows "built_effects ctx (plan_components plan)"
proof -
  from constructMotionPlan_Inr [OF assms] obtain new ev where
    n: "plan_components plan = new"
      "loop_post ctx (length (sub_trajectory sol)) 0 (sub_trajectory sol)
             (getCurrentState ctx) True new ev" by auto
  then have "\<forall>k < length new. \<exists>description i no.
      exec_effect_on_success (new ! k) = Some (effect_on_success ctx description i no)"
    unfolding loop_post_def by blast
  then show ?thesis
    unfolding built_effects_def n(1) by (metis in_set_conv_nth)
qed

subsection \<open>The three paths of execCallback\<close>

lemma execCallback_disabled:
  assumes "plan_execution ctx = None"
  shows "execCallback ctx goal =
         Inr \<lparr>trace = [SetAborted CONTROL_FAILED disabled_response],
              goal_sub_trajectory = sub_trajectory (solution goal)\<rparr>"
  using assms by (simp add: execCallback_def emit_def disabled_response_def Let_def)

lemma execCallback_build_failed:
  assumes "plan_execution ctx = Some executeAndMonitor"
    and "constructMotionPlan ctx (solution goal) \<lparr>plan_components = []\<rparr> [] = Inr (False, plan, tr)"
  shows "execCallback ctx goal =
         Inr \<lparr>trace = tr @ [SetAborted INVALID_MOTION_PLAN (toString ctx INVALID_MOTION_PLAN)],
              goal_sub_trajectory = sub_trajectory (solution goal)\<rparr>"
  using assms
  by (simp add: execCallback_def set_result_def emit_def INVALID_MOTION_PLAN_def SUCCESS_def
      PREEMPTED_def Let_def)

lemma execCallback_executed:
  assumes "plan_execution ctx = Some executeAndMonitor"
    and "constructMotionPlan ctx (solution goal) \<lparr>plan_components = []\<rparr> [] = Inr (True, plan, tr)"
    and "executeAndMonitor plan (handed_over plan tr (sub_trajectory (solution goal))) = (val, w)"
  shows "execCallback ctx goal = Inr (set_result val (toString ctx val) w)"
  using assms by (simp add: execCallback_def handed_over_def Let_def)

lemma set_result_trace:
  "\<exists>t state. trace (set_result val response w) = trace w @ [t] \<and>
     terminal_outcome t = Some (state, val, response) \<and> is_terminal t \<and>
     (state = Succeeded \<longleftrightarrow> val = SUCCESS) \<and>
     (state = Preempted \<longleftrightarrow> val = PREEMPTED) \<and>
     (state = Aborted \<longleftrightarrow> val \<noteq> SUCCESS \<and> val \<noteq> PREEMPTED)"
  by (simp add: set_result_def emit_def SUCCESS_def PREEMPTED_def)

lemma execCallback_returns:
  assumes "known_joints (getRobotModel ctx)"
  shows "\<exists>w. execCallback ctx goal = Inr w"
proof (cases "plan_execution ctx")
  case None
  from execCallback_disabled [OF None, of goal] show ?thesis by blast
next
  case (Some executeAndMonitor)
  obtain ok plan tr where
    b: "constructMotionPlan ctx (solution goal) \<lparr>plan_components = []\<rparr> [] = Inr (ok, plan, tr)"
    using constructMotionPlan_returns [OF assms] by blast
  show ?thesis
  proof (cases ok)
    case False
    with b have "constructMotionPlan ctx (solution goal) \<lparr>plan_components = []\<rparr> [] =
        Inr (False, plan, tr)" by simp
    from execCallback_build_failed [OF Some this] show ?thesis by blast
  next
    case True
    with b have b': "constructMotionPlan ctx (solution goal) \<lparr>plan_components = []\<rparr> [] =
        Inr (True, plan, tr)" by simp
    obtain val w where
      "executeAndMonitor plan (handed_over plan tr (sub_trajectory (solution goal))) = (val, w)"
      by (cases "executeAndMonitor plan (handed_over plan tr (sub_trajectory (solution goal)))")
    from execCallback_executed [OF Some b' this] show ?thesis by blast
  qed
qed

lemma execCallback_terminal_if_returns:
  assumes "execCallback ctx goal = Inr w"
  shows "\<exists>pre t state val response.
           trace w = pre @ [t] \<and>
           terminal_outcome t = Some (state, val, response) \<and>
           (state = Succeeded \<longleftrightarrow> val = SUCCESS) \<and>
           (state = Preempted \<longleftrightarrow> val = PREEMPTED) \<and>
           (state = Aborted \<longleftrightarrow> val \<noteq> SUCCESS \<and> val \<noteq> PREEMPTED) \<and>
           response = (case plan_execution ctx of None \<Rightarrow> disabled_response
                       | Some executeAndMonitor \<Rightarrow> toString ctx val) \<and>
           (\<forall>executeAndMonitor plan tr.
              plan_execution ctx = Some executeAndMonitor \<and>
              constructMotionPlan ctx (solution goal) \<lparr>plan_components = []\<rparr> [] = Inr (True, plan, tr)
              \<longrightarrow> (val, w\<lparr>trace := pre\<rparr>) =
                    executeAndMonitor plan (handed_over plan tr (sub_trajectory (solution goal))))"
proof (cases "plan_execution ctx")
  case None
  from execCallback_disabled [OF None, of goal] assms
  have "trace w = [] @ [SetAborted CONTROL_FAILED disabled_response]" by auto
  moreover have "terminal_outcome (SetAborted CONTROL_FAILED disabled_response) =
      Some (Aborted, CONTROL_FAILED, disabled_response)" by simp
  moreover have "CONTROL_FAILED \<noteq> SUCCESS \<and> CONTROL_FAILED \<noteq> PREEMPTED"
    by (simp add: CONTROL_FAILED_def SUCCESS_def PREEMPTED_def)
  ultimately show ?thesis using None by (intro exI [of _ "[]"] exI) auto
next
  case (Some executeAndMonitor)
  from assms Some obtain ok plan tr where
    b: "constructMotionPlan ctx (solution goal) \<lparr>plan_components = []\<rparr> [] = Inr (ok, plan, tr)"
    by (auto simp: execCallback_def Let_def split: sum.splits)
  show ?thesis
  proof (cases ok)
    case False
    from execCallback_build_failed [OF Some b [unfolded False eq_False [THEN iffD2, OF False]]] assms
    have "trace w = tr @ [SetAborted INVALID_MOTION_PLAN (toString ctx INVALID_MOTION_PLAN)]"
      by auto
    moreover have "INVALID_MOTION_PLAN \<noteq> SUCCESS \<and> INVALID_MOTION_PLAN \<noteq> PREEMPTED"
      by (simp add: INVALID_MOTION_PLAN_def SUCCESS_def PREEMPTED_def)
    ultimately show ?thesis using Some b False
      by (intro exI [of _ tr] exI [of _ "SetAborted INVALID_MOTION_PLAN (toString ctx INVALID_MOTION_PLAN)"]
          exI [of _ Aborted] exI [of _ INVALID_MOTION_PLAN] exI) auto
  next
    case True
    obtain val w1 where
      r: "executeAndMonitor plan (handed_over plan tr (sub_trajectory (solution goal))) = (val, w1)"
      by (cases "executeAndMonitor plan (handed_over plan tr (sub_trajectory (solution goal)))")
    from execCallback_executed [OF Some _ r] b True assms
    have w: "w = set_result val (toString ctx val) w1" by simp
    from set_result_trace [of val "toString ctx val" w1] obtain t state where
      t: "trace (set_result val (toString ctx val) w1) = trace w1 @ [t]"
        "terminal_outcome t = Some (state, val, toString ctx val)"
        "state = Succeeded \<longleftrightarrow> val = SUCCESS"
        "state = Preempted \<longleftrightarrow> val = PREEMPTED"
        "state = Aborted \<longleftrightarrow> val \<noteq> SUCCESS \<and> val \<noteq> PREEMPTED" by blast
    have "w\<lparr>trace := trace w1\<rparr> = w1"
      unfolding w by (simp add: set_result_def emit_def)
    with t w r Some b True show ?thesis
      by (intro exI [of _ "trace w1"] exI [of _ t] exI [of _ state] exI [of _ val]
          exI [of _ "toString ctx val"]) auto
  qed
qed

lemma constructMotionPlan_calls_if_returns:
  assumes "constructMotionPlan ctx sol plan tr = Inr (ok, plan', tr')"
  shows "\<exists>new ev.
           plan_components plan' = plan_components plan @ new \<and>
           tr' = tr @ ev \<and>
           length new \<le> length (sub_trajectory sol) \<and>
           (ok \<longrightarrow> length new = length (sub_trajectory sol)) \<and>
           resolver_calls ev =
             filter (\<lambda>joints. joints \<noteq> [])
               (map sub_trajectory_joint_names (take (length new) (sub_trajectory sol))) \<and>
           (\<forall>k < length new. sub_trajectory_joint_names (sub_trajectory sol ! k) = [] \<longrightarrow>
              (\<exists>rt. exec_trajectory (new ! k) = Some rt \<and> rt_group rt = None))"
proof -
  from constructMotionPlan_Inr [OF assms] obtain new ev where
    n: "plan_components plan' = plan_components plan @ new"
      "tr' = tr @ LockedPlanningSceneRO # ev"
      "loop_post ctx (length (sub_trajectory sol)) 0 (sub_trajectory sol)
             (getCurrentState ctx) ok new ev" by blast
  have "resolver_calls (LockedPlanningSceneRO # ev) = resolver_calls ev" by simp
  with n show ?thesis
    unfolding loop_post_def by (intro exI [of _ new] exI [of _ "LockedPlanningSceneRO # ev"]) simp
qed

subsection \<open>Facts about the examples\<close>

lemma example_model_known: "known_joints example_model"
  by (simp add: known_joints_def example_model_def example_joints_def arm_with_tool_def arm_def
      gripper_def)

lemma example_model_fits: "groups_fit_counter example_model"
  by (simp add: groups_fit_counter_def example_model_def arm_with_tool_def arm_def gripper_def)

lemma example_context_simps:
  "plan_execution (example_context engine) = engine"
  "getRobotModel (example_context engine) = example_model"
  "getCurrentState (example_context engine) = []"
  "newPlanningSceneMessage (example_context engine) tr msg"
  "isEmpty_PlanningScene (example_context engine) = example_isEmpty_PlanningScene"
  "isEmpty_RobotState (example_context engine) = example_isEmpty_RobotState"
  "robotStateMsgToRobotState (example_context engine) = example_apply"
  "toString (example_context engine) = example_toString"
  by (simp_all add: example_context_def)

lemma move_simps:
  "sub_trajectory_joint_names (move joints diff) = joints"
  "scene_diff (move joints diff) = diff"
  by (simp_all add: move_def sub_trajectory_joint_names_def)

lemma example_goal_simps: "sub_trajectory (solution (example_goal subs)) = subs"
  by (simp add: example_goal_def)

lemma example_resolutions:
  "findJointModelGroup example_model [''shoulder'', ''elbow''] = Inr (Some arm_with_tool)"
  "findJointModelGroup example_model [''finger''] = Inr (Some gripper)"
  "findJointModelGroup example_model [''elbow'', ''finger''] = Inr None"
  by code_simp+

lemma example_diffs:
  "example_isEmpty_RobotState (robot_state no_diff)"
  "\<not> example_isEmpty_RobotState (robot_state (attach_diff object))"
  "example_apply (robot_state (attach_diff ''cup'')) attached = (True, attached @ [''cup''])"
  "example_apply (robot_state (attach_diff [])) attached = (False, attached)"
  by (simp_all add: example_isEmpty_RobotState_def example_apply_def no_diff_def attach_diff_def
      empty_PlanningScene_def empty_RobotStateMsg_def empty_JointState_def
      empty_MultiDOFJointState_def)

lemma example_segments:
  "\<not> segment_fails (example_context engine) (move [''shoulder'', ''elbow''] no_diff) state"
  "\<not> segment_fails (example_context engine) (move [''finger''] no_diff) state"
  "\<not> segment_fails (example_context engine) (move [] (attach_diff ''cup'')) state"
  "resolution_fails (example_context engine) (move [''elbow'', ''finger''] no_diff)"
  "segment_fails (example_context engine) (move [''elbow'', ''finger''] no_diff) state"
  "segment_fails (example_context engine) (move [] (attach_diff [])) state"
  by (simp_all add: segment_fails_def resolution_fails_def diff_fails_def example_context_simps
      move_simps example_resolutions example_diffs)

lemma example_labels:
  "to_string (Suc 0) = ''1''"
  "to_string (Suc (Suc 0)) = ''2''"
  by code_simp+

lemma example_accepts: "accepted (example_context engine) before es"
proof (induction es arbitrary: before)
  case Nil
  show ?case by simp
next
  case (Cons e es)
  show ?case by (cases e) (simp_all add: Cons.IH example_context_simps)
qed

lemma refusing_context_simps:
  "plan_execution (refusing_context engine) = engine"
  "getRobotModel (refusing_context engine) = example_model"
  "getCurrentState (refusing_context engine) = []"
  "\<not> newPlanningSceneMessage (refusing_context engine) tr msg"
  "isEmpty_PlanningScene (refusing_context engine) = example_isEmpty_PlanningScene"
  "isEmpty_RobotState (refusing_context engine) = example_isEmpty_RobotState"
  "robotStateMsgToRobotState (refusing_context engine) = example_apply"
  "toString (refusing_context engine) = example_toString"
  by (simp_all add: refusing_context_def example_context_def)

lemma refusing_segments:
  "\<not> segment_fails (refusing_context engine) (move [''shoulder'', ''elbow''] no_diff) state"
  "\<not> segment_fails (refusing_context engine) (move [''finger''] no_diff) state"
  "\<not> segment_fails (refusing_context engine) (move [] no_diff) state"
  by (simp_all add: segment_fails_def resolution_fails_def diff_fails_def refusing_context_simps
      move_simps example_resolutions example_diffs)

lemma refusing_run_accepted:
  "(case execCallback (refusing_context (Some always_succeeds))
           (example_goal [move [''shoulder'', ''elbow''] no_diff, move [] no_diff,
                          move [''finger''] no_diff]) of
      Inl c \<Rightarrow> False
    | Inr w \<Rightarrow> accepted (refusing_context (Some always_succeeds)) [] (trace w))"
  by code_simp

lemma example_labels_3:
  "map (\<lambda>i. to_string (i + 1) @ ''/'' @ to_string (2::nat)) [0 ..< 2] = [''1/2'', ''2/2'']"
  "map (\<lambda>i. to_string (i + 1) @ ''/'' @ to_string (3::nat)) [0 ..< 3] = [''1/3'', ''2/3'', ''3/3'']"
  by code_simp+

section \<open>The claims\<close>

subsection \<open>C1\<close>

text \<open>
  Claim C1. The plan build is all-or-nothing. Take a model whose groups name known joints,
  and an execution engine that is available. If some sub-trajectory \<open>k\<close> of the solution
  fails actuator-group resolution, or its non-empty robot-state scene diff fails to apply
  to the running state, then \<open>constructMotionPlan\<close> returns false, and \<open>execCallback\<close>
  ends with the single terminal call \<^verbatim>\<open>setAborted\<close> carrying \<^verbatim>\<open>INVALID_MOTION_PLAN\<close>: its
  trace is the build's trace and that call, with no plan handed to the engine, no segment
  executed, no feedback and no scene message.
\<close>

theorem constructMotionPlan_all_or_nothing:
  assumes "known_joints (getRobotModel ctx)"
    and "plan_execution ctx = Some executeAndMonitor"
    and "k < length (sub_trajectory (solution goal))"
    and "segment_fails ctx (sub_trajectory (solution goal) ! k)
           (running_state ctx (getCurrentState ctx) (sub_trajectory (solution goal)) k)"
  shows "\<exists>plan tr w.
           constructMotionPlan ctx (solution goal) \<lparr>plan_components = []\<rparr> [] = Inr (False, plan, tr) \<and>
           execCallback ctx goal = Inr w \<and>
           trace w = tr @ [SetAborted INVALID_MOTION_PLAN (toString ctx INVALID_MOTION_PLAN)] \<and>
           filter is_engine_event (trace w) = [] \<and>
           feedbacks (trace w) = [] \<and>
           submissions (trace w) = []"
proof -
  obtain ok plan tr where
    b: "constructMotionPlan ctx (solution goal) \<lparr>plan_components = []\<rparr> [] = Inr (ok, plan, tr)"
    using constructMotionPlan_returns [OF assms(1)] by blast
  from constructMotionPlan_Inr [OF b] obtain new ev where
    tr: "tr = [] @ LockedPlanningSceneRO # ev"
    and post: "loop_post ctx (length (sub_trajectory (solution goal))) 0
                 (sub_trajectory (solution goal)) (getCurrentState ctx) ok new ev"
    by blast
  from post assms(3,4) have "\<not> ok" unfolding loop_post_def by blast
  with b have b': "constructMotionPlan ctx (solution goal) \<lparr>plan_components = []\<rparr> [] =
      Inr (False, plan, tr)" by simp
  note e = execCallback_build_failed [OF assms(2) b']
  from post have "list_all is_build_event tr" unfolding loop_post_def tr by simp
  from build_events_silent [OF this]
  have "filter is_engine_event (tr @ [SetAborted INVALID_MOTION_PLAN (toString ctx INVALID_MOTION_PLAN)]) = []"
    and "feedbacks (tr @ [SetAborted INVALID_MOTION_PLAN (toString ctx INVALID_MOTION_PLAN)]) = []"
    and "submissions (tr @ [SetAborted INVALID_MOTION_PLAN (toString ctx INVALID_MOTION_PLAN)]) = []"
    by (simp_all add: feedbacks_append submissions_append)
  with b' e show ?thesis by simp
qed

text \<open>
  C1 on two goals: one whose second segment names joints of two groups, one whose first
  segment attaches an object without a name.
\<close>

theorem constructMotionPlan_all_or_nothing_witness:
  "(\<exists>plan tr w.
      constructMotionPlan (example_context (Some always_succeeds))
        (solution (example_goal [move [''shoulder'', ''elbow''] no_diff,
                                 move [''elbow'', ''finger''] no_diff,
                                 move [''finger''] no_diff]))
        \<lparr>plan_components = []\<rparr> [] = Inr (False, plan, tr) \<and>
      execCallback (example_context (Some always_succeeds))
        (example_goal [move [''shoulder'', ''elbow''] no_diff,
                       move [''elbow'', ''finger''] no_diff,
                       move [''finger''] no_diff]) = Inr w \<and>
      trace w = tr @ [SetAborted INVALID_MOTION_PLAN ''INVALID_MOTION_PLAN''] \<and>
      filter is_engine_event (trace w) = [] \<and>
      feedbacks (trace w) = [] \<and>
      submissions (trace w) = []) \<and>
   (\<exists>plan tr w.
      constructMotionPlan (example_context (Some always_succeeds))
        (solution (example_goal [move [] (attach_diff []), move [''finger''] no_diff]))
        \<lparr>plan_components = []\<rparr> [] = Inr (False, plan, tr) \<and>
      execCallback (example_context (Some always_succeeds))
        (example_goal [move [] (attach_diff []), move [''finger''] no_diff]) = Inr w \<and>
      trace w = tr @ [SetAborted INVALID_MOTION_PLAN ''INVALID_MOTION_PLAN''] \<and>
      filter is_engine_event (trace w) = [] \<and>
      feedbacks (trace w) = [] \<and>
      submissions (trace w) = [])"
proof -
  let ?ctx = "example_context (Some always_succeeds)"
  have known: "known_joints (getRobotModel ?ctx)"
    by (simp add: example_context_simps example_model_known)
  have engine: "plan_execution ?ctx = Some always_succeeds"
    by (simp add: example_context_simps)
  have resp: "toString ?ctx INVALID_MOTION_PLAN = ''INVALID_MOTION_PLAN''"
    by (simp add: example_context_simps example_toString_def INVALID_MOTION_PLAN_def SUCCESS_def
        PREEMPTED_def)
  let ?g1 = "example_goal [move [''shoulder'', ''elbow''] no_diff,
                           move [''elbow'', ''finger''] no_diff, move [''finger''] no_diff]"
  have k1: "1 < length (sub_trajectory (solution ?g1))" by (simp add: example_goal_simps)
  have f1: "segment_fails ?ctx (sub_trajectory (solution ?g1) ! 1)
              (running_state ?ctx (getCurrentState ?ctx) (sub_trajectory (solution ?g1)) 1)"
    by (simp add: example_goal_simps example_segments)
  let ?g2 = "example_goal [move [] (attach_diff []), move [''finger''] no_diff]"
  have k2: "0 < length (sub_trajectory (solution ?g2))" by (simp add: example_goal_simps)
  have f2: "segment_fails ?ctx (sub_trajectory (solution ?g2) ! 0)
              (running_state ?ctx (getCurrentState ?ctx) (sub_trajectory (solution ?g2)) 0)"
    by (simp add: example_goal_simps example_segments)
  show ?thesis
    using constructMotionPlan_all_or_nothing [OF known engine k1 f1]
      constructMotionPlan_all_or_nothing [OF known engine k2 f2]
    unfolding resp by (rule conjI)
qed

subsection \<open>C2\<close>

text \<open>
  Claim C2. For every joint-name list (in particular every non-empty one) and every list of
  registered groups, \<open>findJointModelGroup\<close> returns the first group, in registration order,
  that contains the joint set and whose other joints are each passive, mimic-driven or
  fixed; it returns the null pointer when no group is so. The first match wins, whatever
  the sizes of the groups. This holds for a model whose groups name known joints and have
  fewer than \<open>2 ^ 32\<close> joints each.
\<close>

theorem findJointModelGroup_first_match:
  assumes "known_joints model" and "groups_fit_counter model"
  shows "findJointModelGroup model joints =
         Inr (List.find (group_matches model (set joints)) (getJointModelGroups model))"
  unfolding findJointModelGroup_def
  using assms find_in_groups_find [of "getJointModelGroups model" model joints]
  by (simp add: known_joints_def groups_fit_counter_def)

text \<open>
  C2 on the example model: for the two arm joints the group found is \<open>arm_with_tool\<close>,
  registered first, not the smaller exact group \<open>arm\<close>; for the finger it is the gripper,
  whose other joint mimics; for a joint set that spans two groups nothing is found.
\<close>

theorem findJointModelGroup_first_match_witness:
  "known_joints example_model \<and> groups_fit_counter example_model \<and>
   findJointModelGroup example_model [''elbow'', ''shoulder''] = Inr (Some arm_with_tool) \<and>
   findJointModelGroup example_model [''finger''] = Inr (Some gripper) \<and>
   findJointModelGroup example_model [''elbow'', ''finger''] = Inr None"
proof -
  note defs = example_model_def example_joints_def arm_with_tool_def arm_def gripper_def
    group_matches_def tolerated_def
  have a: "List.find (group_matches example_model (set [''elbow'', ''shoulder'']))
             (getJointModelGroups example_model) = Some arm_with_tool"
    by (simp add: defs)
  have b: "List.find (group_matches example_model (set [''finger'']))
             (getJointModelGroups example_model) = Some gripper"
    by (simp add: defs)
  have c: "List.find (group_matches example_model (set [''elbow'', ''finger'']))
             (getJointModelGroups example_model) = None"
    by (simp add: defs)
  show ?thesis
    using
      findJointModelGroup_first_match [OF example_model_known example_model_fits,
        of "[''elbow'', ''shoulder'']"]
      findJointModelGroup_first_match [OF example_model_known example_model_fits,
        of "[''finger'']"]
      findJointModelGroup_first_match [OF example_model_known example_model_fits,
        of "[''elbow'', ''finger'']"]
      example_model_known example_model_fits
    by (simp only: a b c simp_thms)
qed

subsection \<open>C3\<close>

text \<open>
  Claim C3. On a model whose groups name known joints \<open>execCallback\<close> returns for every
  goal. Whenever it returns, its trace ends with one terminal call
  carrying an error code and a response text, and the call is chosen by the code alone:
  \<^verbatim>\<open>setSucceeded\<close> exactly for \<^verbatim>\<open>SUCCESS\<close>, \<^verbatim>\<open>setPreempted\<close> exactly for \<^verbatim>\<open>PREEMPTED\<close>,
  \<^verbatim>\<open>setAborted\<close> exactly for every other code. The response is \<open>toString\<close> of the code
  (the fixed sentence when execution is disabled). When the plan was built, the code and
  the state before the terminal call are what the engine returned for that plan.
\<close>

theorem execCallback_terminal_mapping:
  "(known_joints (getRobotModel ctx) \<longrightarrow> (\<exists>w. execCallback ctx goal = Inr w)) \<and>
   (\<forall>w. execCallback ctx goal = Inr w \<longrightarrow>
      (\<exists>pre t state val response.
               trace w = pre @ [t] \<and>
               terminal_outcome t = Some (state, val, response) \<and>
               (state = Succeeded \<longleftrightarrow> val = SUCCESS) \<and>
               (state = Preempted \<longleftrightarrow> val = PREEMPTED) \<and>
               (state = Aborted \<longleftrightarrow> val \<noteq> SUCCESS \<and> val \<noteq> PREEMPTED) \<and>
               response = (case plan_execution ctx of None \<Rightarrow> disabled_response
                           | Some executeAndMonitor \<Rightarrow> toString ctx val) \<and>
               (\<forall>executeAndMonitor plan tr.
                  plan_execution ctx = Some executeAndMonitor \<and>
                  constructMotionPlan ctx (solution goal) \<lparr>plan_components = []\<rparr> [] = Inr (True, plan, tr)
                  \<longrightarrow> (val, w\<lparr>trace := pre\<rparr>) =
                        executeAndMonitor plan (handed_over plan tr (sub_trajectory (solution goal))))))"
proof (intro conjI allI impI)
  assume "known_joints (getRobotModel ctx)"
  then show "\<exists>w. execCallback ctx goal = Inr w" by (rule execCallback_returns)
next
  fix w assume "execCallback ctx goal = Inr w"
  then show "\<exists>pre t state val response.
           trace w = pre @ [t] \<and>
           terminal_outcome t = Some (state, val, response) \<and>
           (state = Succeeded \<longleftrightarrow> val = SUCCESS) \<and>
           (state = Preempted \<longleftrightarrow> val = PREEMPTED) \<and>
           (state = Aborted \<longleftrightarrow> val \<noteq> SUCCESS \<and> val \<noteq> PREEMPTED) \<and>
           response = (case plan_execution ctx of None \<Rightarrow> disabled_response
                       | Some executeAndMonitor \<Rightarrow> toString ctx val) \<and>
           (\<forall>executeAndMonitor plan tr.
              plan_execution ctx = Some executeAndMonitor \<and>
              constructMotionPlan ctx (solution goal) \<lparr>plan_components = []\<rparr> [] = Inr (True, plan, tr)
              \<longrightarrow> (val, w\<lparr>trace := pre\<rparr>) =
                    executeAndMonitor plan (handed_over plan tr (sub_trajectory (solution goal))))"
    by (rule execCallback_terminal_if_returns)
qed

text \<open>
  C3 on a goal of one segment with an engine stopped during it: the run ends with
  \<^verbatim>\<open>setPreempted\<close>.
\<close>

theorem execCallback_terminal_mapping_witness:
  "execCallback (example_context (Some stops_at_once)) (example_goal [move [''finger''] no_diff])
     = Inr preempted_run \<and>
   (\<exists>pre t state val response.
      trace preempted_run = pre @ [t] \<and>
      terminal_outcome t = Some (state, val, response) \<and>
      (state = Succeeded \<longleftrightarrow> val = SUCCESS) \<and>
      (state = Preempted \<longleftrightarrow> val = PREEMPTED) \<and>
      (state = Aborted \<longleftrightarrow> val \<noteq> SUCCESS \<and> val \<noteq> PREEMPTED) \<and>
      response = (case plan_execution (example_context (Some stops_at_once)) of
                    None \<Rightarrow> disabled_response
                  | Some executeAndMonitor \<Rightarrow> toString (example_context (Some stops_at_once)) val) \<and>
      (\<forall>executeAndMonitor plan tr.
         plan_execution (example_context (Some stops_at_once)) = Some executeAndMonitor \<and>
         constructMotionPlan (example_context (Some stops_at_once))
           (solution (example_goal [move [''finger''] no_diff])) \<lparr>plan_components = []\<rparr> []
           = Inr (True, plan, tr)
         \<longrightarrow> (val, preempted_run\<lparr>trace := pre\<rparr>) =
               executeAndMonitor plan
                 (handed_over plan tr
                    (sub_trajectory (solution (example_goal [move [''finger''] no_diff]))))))"
proof -
  have run: "execCallback (example_context (Some stops_at_once))
      (example_goal [move [''finger''] no_diff]) = Inr preempted_run"
    by code_simp
  from run execCallback_terminal_mapping [THEN conjunct2, rule_format, OF run]
  show ?thesis by (rule conjI)
qed

subsection \<open>C4\<close>



subsection \<open>C5\<close>

text \<open>
  Claim C5, as amended. Take a solution of \<open>N\<close> sub-trajectories that all build and whose
  segments all execute successfully. \<open>execCallback\<close> returns, and if every scene message it
  submitted was accepted (whatever the monitor would answer to messages it was not sent),
  it emitted exactly one feedback message per segment, in segment order, all before the
  single terminal call \<^verbatim>\<open>setSucceeded\<close>. The \<open>i\<close>-th message (counting from 1) carries
  \<^verbatim>\<open>sub_id\<close> \<open>i - 1\<close>, the index of the segment counted from 0, and \<^verbatim>\<open>sub_no\<close> \<open>N\<close>. The
  1-based number is in the description only: the \<open>i\<close>-th segment the engine ran is the one
  described as \<open>i\<close>, a slash, \<open>N\<close>. The engine is the model of the specification's
  execution engine.
\<close>

theorem execCallback_feedback_zero_based:
  assumes "known_joints (getRobotModel ctx)"
    and "plan_execution ctx = Some (engine_model segment_status effect_failure)"
    and "\<forall>k < length (sub_trajectory (solution goal)).
           \<not> segment_fails ctx (sub_trajectory (solution goal) ! k)
               (running_state ctx (getCurrentState ctx) (sub_trajectory (solution goal)) k)"
    and "\<forall>k < length (sub_trajectory (solution goal)). segment_status k = SUCCESS"
  shows "\<exists>w.
           execCallback ctx goal = Inr w \<and>
           (accepted ctx [] (trace w) \<longrightarrow>
              (\<exists>pre.
                 trace w = pre @ [SetSucceeded SUCCESS (toString ctx SUCCESS)] \<and>
                 feedbacks pre =
                   map (\<lambda>i. (i, length (sub_trajectory (solution goal))))
                     [0 ..< length (sub_trajectory (solution goal))] \<and>
                 executed_segments pre =
                   map (\<lambda>i. to_string (i + 1) @ ''/'' @
                            to_string (length (sub_trajectory (solution goal))))
                     [0 ..< length (sub_trajectory (solution goal))] \<and>
                 filter is_terminal pre = []))"
proof -
  let ?subs = "sub_trajectory (solution goal)"
  let ?N = "length ?subs"
  obtain ok plan tr where
    b: "constructMotionPlan ctx (solution goal) \<lparr>plan_components = []\<rparr> [] = Inr (ok, plan, tr)"
    using constructMotionPlan_returns [OF assms(1)] by blast
  from constructMotionPlan_Inr [OF b] obtain new ev where
    n: "plan_components plan = new" "tr = LockedPlanningSceneRO # ev"
    and post: "loop_post ctx ?N 0 ?subs (getCurrentState ctx) ok new ev"
    by auto
  from post assms(3) have ok: ok unfolding loop_post_def by blast
  from post ok have len: "length new = ?N"
    and eff: "\<forall>j < length new.
               exec_effect_on_success (new ! j) =
                 Some (effect_on_success ctx (label (0 + j) ?N) (0 + j) ?N) \<and>
               exec_description (new ! j) = label (0 + j) ?N"
    and quiet: "list_all is_build_event ev"
    unfolding loop_post_def by simp_all
  have seg: "\<forall>j < length new. segment_status (0 + j) = SUCCESS"
    using assms(4) len by simp
  obtain val w1 where
    run: "engine_model segment_status effect_failure plan (handed_over plan tr ?subs) = (val, w1)"
    by (cases "engine_model segment_status effect_failure plan (handed_over plan tr ?subs)")
  then have r: "run_components segment_status effect_failure 0 new (handed_over plan tr ?subs) =
      (val, w1)" by (simp add: engine_model_def n(1))
  from execCallback_executed [OF assms(2) b [unfolded eqTrueI [OF ok]] run]
  have e: "execCallback ctx goal = Inr (set_result val (toString ctx val) w1)" .
  from set_result_trace [of val "toString ctx val" w1] obtain t where
    t: "trace (set_result val (toString ctx val) w1) = trace w1 @ [t]" by blast
  have q: "feedbacks tr = [] \<and> filter is_terminal tr = [] \<and> executed_segments tr = []"
    using build_events_silent [OF quiet] build_events_no_segment [OF quiet] n(2) by simp
  have "\<exists>pre.
      trace (set_result val (toString ctx val) w1) =
        pre @ [SetSucceeded SUCCESS (toString ctx SUCCESS)] \<and>
      feedbacks pre = map (\<lambda>i. (i, ?N)) [0 ..< ?N] \<and>
      executed_segments pre = map (\<lambda>i. to_string (i + 1) @ ''/'' @ to_string ?N) [0 ..< ?N] \<and>
      filter is_terminal pre = []"
    if acc: "accepted ctx [] (trace (set_result val (toString ctx val) w1))"
  proof -
    from acc have "accepted ctx [] (trace w1)" unfolding t by (simp add: accepted_append)
    from run_components_accepted [OF eff seg r this] obtain ev1 where
      v: "val = SUCCESS" and
      ev1: "trace w1 = trace (handed_over plan tr ?subs) @ ev1"
        "feedbacks ev1 = map (\<lambda>j. (j, ?N)) [0 ..< 0 + length new]"
        "executed_segments ev1 = map (\<lambda>j. label j ?N) [0 ..< 0 + length new]"
        "filter is_terminal ev1 = []" by blast
    have t': "trace (set_result val (toString ctx val) w1) =
        trace w1 @ [SetSucceeded SUCCESS (toString ctx SUCCESS)]"
      unfolding v by (simp add: set_result_def emit_def)
    have f: "feedbacks (trace w1) = map (\<lambda>i. (i, ?N)) [0 ..< ?N]"
      using ev1(1,2) q len by (simp add: handed_over_def feedbacks_append)
    have g: "executed_segments (trace w1) =
        map (\<lambda>i. to_string (i + 1) @ ''/'' @ to_string ?N) [0 ..< ?N]"
      using ev1(1,3) q len by (simp add: handed_over_def executed_segments_append label_def)
    have z: "filter is_terminal (trace w1) = []"
      using ev1(1,4) q by (simp add: handed_over_def)
    from t' f g z show ?thesis by blast
  qed
  with e show ?thesis by blast
qed

text \<open>
  The claim as first stated has the \<open>i\<close>-th feedback carry index \<open>i\<close>: 1/3, 2/3, 3/3 for three
  segments. Line 175 assigns the loop index \<^verbatim>\<open>i\<close>, which starts at 0, so three segments that
  all succeed give 0/3, 1/3, 2/3; only the description string is \<^verbatim>\<open>i + 1\<close> over \<open>N\<close>.
\<close>

theorem execCallback_feedback_one_based_counterexample:
  "\<exists>w. execCallback (example_context (Some always_succeeds))
          (example_goal [move [''shoulder'', ''elbow''] no_diff, move [] (attach_diff ''cup''),
                         move [''finger''] no_diff]) = Inr w \<and>
        feedbacks (trace w) = [(0, 3), (1, 3), (2, 3)] \<and>
        feedbacks (trace w) \<noteq> [(1, 3), (2, 3), (3, 3)] \<and>
        last (trace w) = SetSucceeded SUCCESS ''SUCCESS''"
proof -
  let ?r = "execCallback (example_context (Some always_succeeds))
          (example_goal [move [''shoulder'', ''elbow''] no_diff, move [] (attach_diff ''cup''),
                         move [''finger''] no_diff])"
  have "(case ?r of Inl c \<Rightarrow> None | Inr w \<Rightarrow> Some (feedbacks (trace w), last (trace w))) =
      Some ([(0, 3), (1, 3), (2, 3)], SetSucceeded SUCCESS ''SUCCESS'')"
    by code_simp
  then show ?thesis by (cases ?r) auto
qed

text \<open>
  C5 on two goals. With a monitor that accepts, a goal of two segments, the second attaching
  an object: the feedback is 0/2, then 1/2, for the segments described as 1/2 and 2/2. With
  a monitor that refuses every message, a goal of three segments without scene diffs:
  nothing is submitted, and the feedback is 0/3, 1/3, 2/3 for the segments 1/3, 2/3, 3/3.
\<close>

theorem execCallback_feedback_zero_based_witness:
  "(\<exists>w pre.
      execCallback (example_context (Some always_succeeds))
        (example_goal [move [''shoulder'', ''elbow''] no_diff, move [] (attach_diff ''cup'')]) = Inr w \<and>
      trace w = pre @ [SetSucceeded SUCCESS ''SUCCESS''] \<and>
      feedbacks pre = [(0, 2), (1, 2)] \<and>
      executed_segments pre = [''1/2'', ''2/2''] \<and>
      filter is_terminal pre = []) \<and>
   (\<exists>w pre.
      execCallback (refusing_context (Some always_succeeds))
        (example_goal [move [''shoulder'', ''elbow''] no_diff, move [] no_diff,
                       move [''finger''] no_diff]) = Inr w \<and>
      trace w = pre @ [SetSucceeded SUCCESS ''SUCCESS''] \<and>
      feedbacks pre = [(0, 3), (1, 3), (2, 3)] \<and>
      executed_segments pre = [''1/3'', ''2/3'', ''3/3''] \<and>
      filter is_terminal pre = [])"
proof (rule conjI)
  let ?ctx = "example_context (Some always_succeeds)"
  let ?g = "example_goal [move [''shoulder'', ''elbow''] no_diff, move [] (attach_diff ''cup'')]"
  have known: "known_joints (getRobotModel ?ctx)"
    by (simp add: example_context_simps example_model_known)
  have engine: "plan_execution ?ctx = Some (engine_model (\<lambda>k. SUCCESS) PREEMPTED)"
    by (simp add: example_context_simps always_succeeds_def)
  have built: "\<forall>k < length (sub_trajectory (solution ?g)).
      \<not> segment_fails ?ctx (sub_trajectory (solution ?g) ! k)
          (running_state ?ctx (getCurrentState ?ctx) (sub_trajectory (solution ?g)) k)"
    by (simp add: example_goal_simps example_segments all_less_Suc)
  have ran: "\<forall>k < length (sub_trajectory (solution ?g)). (\<lambda>k. SUCCESS) k = SUCCESS" by simp
  have resp: "toString ?ctx SUCCESS = ''SUCCESS''"
    by (simp add: example_context_simps example_toString_def)
  have len: "length (sub_trajectory (solution ?g)) = 2" by (simp add: example_goal_simps)
  have fb: "map (\<lambda>i. (i, 2::nat)) [0 ..< 2] = [(0, 2), (1, 2)]" by (simp add: upt_rec)
  from execCallback_feedback_zero_based [OF known engine built ran] obtain w where
    w: "execCallback ?ctx ?g = Inr w \<and>
        (accepted ?ctx [] (trace w) \<longrightarrow>
          (\<exists>pre. trace w = pre @ [SetSucceeded SUCCESS (toString ?ctx SUCCESS)] \<and>
             feedbacks pre = map (\<lambda>i. (i, length (sub_trajectory (solution ?g))))
                               [0 ..< length (sub_trajectory (solution ?g))] \<and>
             executed_segments pre =
               map (\<lambda>i. to_string (i + 1) @ ''/'' @ to_string (length (sub_trajectory (solution ?g))))
                 [0 ..< length (sub_trajectory (solution ?g))] \<and>
             filter is_terminal pre = []))" ..
  have acc: "accepted ?ctx [] (trace w)" by (rule example_accepts)
  from w have "accepted ?ctx [] (trace w) \<longrightarrow> (\<exists>pre.
     trace w = pre @ [SetSucceeded SUCCESS (toString ?ctx SUCCESS)] \<and>
     feedbacks pre = map (\<lambda>i. (i, length (sub_trajectory (solution ?g))))
                               [0 ..< length (sub_trajectory (solution ?g))] \<and>
     executed_segments pre =
               map (\<lambda>i. to_string (i + 1) @ ''/'' @ to_string (length (sub_trajectory (solution ?g))))
                 [0 ..< length (sub_trajectory (solution ?g))] \<and>
     filter is_terminal pre = [])" by (rule conjunct2)
  from this acc have "\<exists>pre.
     trace w = pre @ [SetSucceeded SUCCESS (toString ?ctx SUCCESS)] \<and>
     feedbacks pre = map (\<lambda>i. (i, length (sub_trajectory (solution ?g))))
                               [0 ..< length (sub_trajectory (solution ?g))] \<and>
     executed_segments pre =
               map (\<lambda>i. to_string (i + 1) @ ''/'' @ to_string (length (sub_trajectory (solution ?g))))
                 [0 ..< length (sub_trajectory (solution ?g))] \<and>
     filter is_terminal pre = []" by (rule mp)
  then obtain pre where
    "trace w = pre @ [SetSucceeded SUCCESS (toString ?ctx SUCCESS)] \<and>
     feedbacks pre = map (\<lambda>i. (i, length (sub_trajectory (solution ?g))))
                               [0 ..< length (sub_trajectory (solution ?g))] \<and>
     executed_segments pre =
               map (\<lambda>i. to_string (i + 1) @ ''/'' @ to_string (length (sub_trajectory (solution ?g))))
                 [0 ..< length (sub_trajectory (solution ?g))] \<and>
     filter is_terminal pre = []" ..
  then have "trace w = pre @ [SetSucceeded SUCCESS ''SUCCESS''] \<and>
      feedbacks pre = [(0, 2), (1, 2)] \<and>
      executed_segments pre = [''1/2'', ''2/2''] \<and>
      filter is_terminal pre = []"
    unfolding resp len fb example_labels_3 .
  with w show "\<exists>w pre. execCallback ?ctx ?g = Inr w \<and>
      trace w = pre @ [SetSucceeded SUCCESS ''SUCCESS''] \<and>
      feedbacks pre = [(0, 2), (1, 2)] \<and>
      executed_segments pre = [''1/2'', ''2/2''] \<and>
      filter is_terminal pre = []"
    by (intro exI [of _ w] exI [of _ pre]) simp
next
  let ?ctx = "refusing_context (Some always_succeeds)"
  let ?g = "example_goal [move [''shoulder'', ''elbow''] no_diff, move [] no_diff,
                          move [''finger''] no_diff]"
  have known: "known_joints (getRobotModel ?ctx)"
    by (simp add: refusing_context_simps example_model_known)
  have engine: "plan_execution ?ctx = Some (engine_model (\<lambda>k. SUCCESS) PREEMPTED)"
    by (simp add: refusing_context_simps always_succeeds_def)
  have built: "\<forall>k < length (sub_trajectory (solution ?g)).
      \<not> segment_fails ?ctx (sub_trajectory (solution ?g) ! k)
          (running_state ?ctx (getCurrentState ?ctx) (sub_trajectory (solution ?g)) k)"
    by (simp add: example_goal_simps refusing_segments all_less_Suc)
  have ran: "\<forall>k < length (sub_trajectory (solution ?g)). (\<lambda>k. SUCCESS) k = SUCCESS" by simp
  have resp: "toString ?ctx SUCCESS = ''SUCCESS''"
    by (simp add: refusing_context_simps example_toString_def)
  have len: "length (sub_trajectory (solution ?g)) = 3" by (simp add: example_goal_simps)
  have fb: "map (\<lambda>i. (i, 3::nat)) [0 ..< 3] = [(0, 3), (1, 3), (2, 3)]" by (simp add: upt_rec)
  from execCallback_feedback_zero_based [OF known engine built ran] obtain w where
    w: "execCallback ?ctx ?g = Inr w \<and>
        (accepted ?ctx [] (trace w) \<longrightarrow>
          (\<exists>pre. trace w = pre @ [SetSucceeded SUCCESS (toString ?ctx SUCCESS)] \<and>
             feedbacks pre = map (\<lambda>i. (i, length (sub_trajectory (solution ?g))))
                               [0 ..< length (sub_trajectory (solution ?g))] \<and>
             executed_segments pre =
               map (\<lambda>i. to_string (i + 1) @ ''/'' @ to_string (length (sub_trajectory (solution ?g))))
                 [0 ..< length (sub_trajectory (solution ?g))] \<and>
             filter is_terminal pre = []))" ..
  from w refusing_run_accepted have acc: "accepted ?ctx [] (trace w)" by simp
  from w have "accepted ?ctx [] (trace w) \<longrightarrow> (\<exists>pre.
     trace w = pre @ [SetSucceeded SUCCESS (toString ?ctx SUCCESS)] \<and>
     feedbacks pre = map (\<lambda>i. (i, length (sub_trajectory (solution ?g))))
                               [0 ..< length (sub_trajectory (solution ?g))] \<and>
     executed_segments pre =
               map (\<lambda>i. to_string (i + 1) @ ''/'' @ to_string (length (sub_trajectory (solution ?g))))
                 [0 ..< length (sub_trajectory (solution ?g))] \<and>
     filter is_terminal pre = [])" by (rule conjunct2)
  from this acc have "\<exists>pre.
     trace w = pre @ [SetSucceeded SUCCESS (toString ?ctx SUCCESS)] \<and>
     feedbacks pre = map (\<lambda>i. (i, length (sub_trajectory (solution ?g))))
                               [0 ..< length (sub_trajectory (solution ?g))] \<and>
     executed_segments pre =
               map (\<lambda>i. to_string (i + 1) @ ''/'' @ to_string (length (sub_trajectory (solution ?g))))
                 [0 ..< length (sub_trajectory (solution ?g))] \<and>
     filter is_terminal pre = []" by (rule mp)
  then obtain pre where
    "trace w = pre @ [SetSucceeded SUCCESS (toString ?ctx SUCCESS)] \<and>
     feedbacks pre = map (\<lambda>i. (i, length (sub_trajectory (solution ?g))))
                               [0 ..< length (sub_trajectory (solution ?g))] \<and>
     executed_segments pre =
               map (\<lambda>i. to_string (i + 1) @ ''/'' @ to_string (length (sub_trajectory (solution ?g))))
                 [0 ..< length (sub_trajectory (solution ?g))] \<and>
     filter is_terminal pre = []" ..
  then have "trace w = pre @ [SetSucceeded SUCCESS ''SUCCESS''] \<and>
      feedbacks pre = [(0, 3), (1, 3), (2, 3)] \<and>
      executed_segments pre = [''1/3'', ''2/3'', ''3/3''] \<and>
      filter is_terminal pre = []"
    unfolding resp len fb example_labels_3 .
  with w show "\<exists>w pre. execCallback ?ctx ?g = Inr w \<and>
      trace w = pre @ [SetSucceeded SUCCESS ''SUCCESS''] \<and>
      feedbacks pre = [(0, 3), (1, 3), (2, 3)] \<and>
      executed_segments pre = [''1/3'', ''2/3'', ''3/3''] \<and>
      filter is_terminal pre = []"
    by (intro exI [of _ w] exI [of _ pre]) simp
qed

subsection \<open>C6\<close>

text \<open>
  Claim C6. When trajectory execution is disallowed (\<^verbatim>\<open>plan_execution_\<close> is null), every goal
  ends at once: the trace is the single call \<^verbatim>\<open>setAborted\<close> with \<^verbatim>\<open>CONTROL_FAILED\<close>, which is
  neither the success nor the preemption code, and the fixed sentence. The plan builder is
  never entered: the planning scene is not locked and no group is resolved, whatever the
  model and the goal.
\<close>

theorem execCallback_execution_disabled:
  assumes "plan_execution ctx = None"
  shows "\<exists>w. execCallback ctx goal = Inr w \<and>
           trace w = [SetAborted CONTROL_FAILED disabled_response] \<and>
           CONTROL_FAILED \<noteq> SUCCESS \<and> CONTROL_FAILED \<noteq> PREEMPTED \<and>
           LockedPlanningSceneRO \<notin> set (trace w) \<and>
           resolver_calls (trace w) = []"
  using execCallback_disabled [OF assms, of goal]
  by (simp add: CONTROL_FAILED_def SUCCESS_def PREEMPTED_def)

text \<open>
  C6 on the example context without an engine.
\<close>

theorem execCallback_execution_disabled_witness:
  "\<exists>w. execCallback (example_context None) (example_goal [move [''finger''] no_diff]) = Inr w \<and>
        trace w = [SetAborted CONTROL_FAILED disabled_response] \<and>
        CONTROL_FAILED \<noteq> SUCCESS \<and> CONTROL_FAILED \<noteq> PREEMPTED \<and>
        LockedPlanningSceneRO \<notin> set (trace w) \<and>
        resolver_calls (trace w) = []"
proof -
  have "plan_execution (example_context None) = None" by (simp add: example_context_simps)
  then show ?thesis by (rule execCallback_execution_disabled)
qed

subsection \<open>C7\<close>

text \<open>
  Claim C7. On a model whose groups name known joints \<open>constructMotionPlan\<close> returns for
  every solution. Whenever it returns, the calls of \<open>findJointModelGroup\<close> it
  made are exactly the non-empty joint-name lists of the segments it processed, one call
  each, in order: a segment whose single-DOF and multi-DOF joint names are both empty
  causes no call. The component of every such segment has a trajectory bound to no group.
\<close>

theorem constructMotionPlan_no_joints_no_resolution:
  "(known_joints (getRobotModel ctx) \<longrightarrow>
      (\<exists>ok plan' tr'. constructMotionPlan ctx sol plan tr = Inr (ok, plan', tr'))) \<and>
   (\<forall>ok plan' tr'. constructMotionPlan ctx sol plan tr = Inr (ok, plan', tr') \<longrightarrow>
      (\<exists>new ev.
               plan_components plan' = plan_components plan @ new \<and>
               tr' = tr @ ev \<and>
               length new \<le> length (sub_trajectory sol) \<and>
               (ok \<longrightarrow> length new = length (sub_trajectory sol)) \<and>
               resolver_calls ev =
                 filter (\<lambda>joints. joints \<noteq> [])
                   (map sub_trajectory_joint_names (take (length new) (sub_trajectory sol))) \<and>
               (\<forall>k < length new. sub_trajectory_joint_names (sub_trajectory sol ! k) = [] \<longrightarrow>
                  (\<exists>rt. exec_trajectory (new ! k) = Some rt \<and> rt_group rt = None))))"
proof (intro conjI allI impI)
  assume "known_joints (getRobotModel ctx)"
  then show "\<exists>ok plan' tr'. constructMotionPlan ctx sol plan tr = Inr (ok, plan', tr')"
    by (rule constructMotionPlan_returns)
next
  fix ok plan' tr' assume "constructMotionPlan ctx sol plan tr = Inr (ok, plan', tr')"
  then show "\<exists>new ev.
           plan_components plan' = plan_components plan @ new \<and>
           tr' = tr @ ev \<and>
           length new \<le> length (sub_trajectory sol) \<and>
           (ok \<longrightarrow> length new = length (sub_trajectory sol)) \<and>
           resolver_calls ev =
             filter (\<lambda>joints. joints \<noteq> [])
               (map sub_trajectory_joint_names (take (length new) (sub_trajectory sol))) \<and>
           (\<forall>k < length new. sub_trajectory_joint_names (sub_trajectory sol ! k) = [] \<longrightarrow>
              (\<exists>rt. exec_trajectory (new ! k) = Some rt \<and> rt_group rt = None))"
    by (rule constructMotionPlan_calls_if_returns)
qed

text \<open>
  C7 on a solution of two segments, the first without joints: one call, for the finger, and
  a first component bound to no group.
\<close>

theorem constructMotionPlan_no_joints_no_resolution_witness:
  "constructMotionPlan (example_context None) two_step_solution \<lparr>plan_components = []\<rparr> [] =
     Inr (True, two_step_plan, two_step_trace) \<and>
   resolver_calls two_step_trace = [[''finger'']] \<and>
   (\<exists>new ev.
      plan_components two_step_plan =
        plan_components (\<lparr>plan_components = []\<rparr> :: (string list) ExecutableMotionPlan) @ new \<and>
      two_step_trace = [] @ ev \<and>
      length new \<le> length (sub_trajectory two_step_solution) \<and>
      (True \<longrightarrow> length new = length (sub_trajectory two_step_solution)) \<and>
      resolver_calls ev =
        filter (\<lambda>joints. joints \<noteq> [])
          (map sub_trajectory_joint_names (take (length new) (sub_trajectory two_step_solution))) \<and>
      (\<forall>k < length new.
         sub_trajectory_joint_names (sub_trajectory two_step_solution ! k) = [] \<longrightarrow>
         (\<exists>rt. exec_trajectory (new ! k) = Some rt \<and> rt_group rt = None)))"
proof -
  have build: "constructMotionPlan (example_context None) two_step_solution
      \<lparr>plan_components = []\<rparr> [] = Inr (True, two_step_plan, two_step_trace)"
    by (simp add: constructMotionPlan_def construct_component_def bind_component_def Let_def
        example_context_simps move_simps example_resolutions example_diffs example_labels
        gripper_def numeral_2_eq_2 two_step_solution_def two_step_plan_def two_step_trace_def)
       (simp add: move_def)
  have calls: "resolver_calls two_step_trace = [[''finger'']]"
    by (simp add: two_step_trace_def)
  from build calls
    constructMotionPlan_no_joints_no_resolution [THEN conjunct2, rule_format, OF build]
  show ?thesis by (intro conjI)
qed

subsection \<open>C8\<close>

text \<open>
  Claim C8. When resolution fails for sub-trajectory \<open>k\<close> and no earlier segment failed,
  \<open>constructMotionPlan\<close> returns false after \<open>k + 1\<close> components, and the last thing it did
  was to log the error whose text is the fixed sentence with the joint names of that
  sub-trajectory joined by a comma and a space, in braces. Every joint name of the
  sub-trajectory occurs in that text.
\<close>

theorem constructMotionPlan_names_unresolved_joints:
  assumes "known_joints (getRobotModel ctx)"
    and "k < length (sub_trajectory sol)"
    and "\<forall>j < k. \<not> segment_fails ctx (sub_trajectory sol ! j)
                     (running_state ctx (getCurrentState ctx) (sub_trajectory sol) j)"
    and "resolution_fails ctx (sub_trajectory sol ! k)"
  shows "\<exists>plan' tr'.
           constructMotionPlan ctx sol plan tr = Inr (False, plan', tr') \<and>
           length (plan_components plan') = length (plan_components plan) + Suc k \<and>
           last tr' = RosError (not_found_message
                                  (sub_trajectory_joint_names (sub_trajectory sol ! k))) \<and>
           (\<forall>j \<in> set (sub_trajectory_joint_names (sub_trajectory sol ! k)).
              \<exists>a b. not_found_message (sub_trajectory_joint_names (sub_trajectory sol ! k))
                      = a @ j @ b)"
proof -
  have f: "segment_fails ctx (sub_trajectory sol ! k)
             (running_state ctx (getCurrentState ctx) (sub_trajectory sol) k)"
    using assms(4) by (simp add: segment_fails_def)
  from construct_loop_first_failure [OF assms(1,2,3) f,
      of "length (sub_trajectory sol)" 0 "plan_components plan" "tr @ [LockedPlanningSceneRO]"]
    assms(4)
  obtain components' tr' where
    l: "construct_loop ctx (length (sub_trajectory sol)) 0 (sub_trajectory sol)
          (getCurrentState ctx) (plan_components plan) (tr @ [LockedPlanningSceneRO]) =
        Inr (False, components', tr')"
      "length components' = length (plan_components plan) + Suc k"
      "last tr' = RosError (not_found_message
                                  (sub_trajectory_joint_names (sub_trajectory sol ! k)))"
    by blast
  from l(1) have "constructMotionPlan ctx sol plan tr =
      Inr (False, plan\<lparr>plan_components := components'\<rparr>, tr')"
    by (simp add: constructMotionPlan_def)
  with l(2,3) not_found_message_names show ?thesis by auto
qed

text \<open>
  C8 on a solution whose second segment names an arm joint and a finger.
\<close>

theorem constructMotionPlan_names_unresolved_joints_witness:
  "not_found_message [''elbow'', ''finger''] =
     ''Could not find JointModelGroup that actuates {elbow, finger}'' \<and>
   sub_trajectory_joint_names (sub_trajectory unresolvable_solution ! 1) = [''elbow'', ''finger''] \<and>
   (\<exists>plan' tr'.
      constructMotionPlan (example_context None) unresolvable_solution
        \<lparr>plan_components = []\<rparr> [] = Inr (False, plan', tr') \<and>
      length (plan_components plan') =
        length (plan_components (\<lparr>plan_components = []\<rparr> :: (string list) ExecutableMotionPlan))
          + Suc 1 \<and>
      last tr' = RosError (not_found_message
                             (sub_trajectory_joint_names (sub_trajectory unresolvable_solution ! 1))) \<and>
      (\<forall>j \<in> set (sub_trajectory_joint_names (sub_trajectory unresolvable_solution ! 1)).
         \<exists>a b. not_found_message
                  (sub_trajectory_joint_names (sub_trajectory unresolvable_solution ! 1))
                = a @ j @ b))"
proof -
  let ?ctx = "example_context None :: (string list) MoveGroupContext"
  have known: "known_joints (getRobotModel ?ctx)"
    by (simp add: example_context_simps example_model_known)
  have k: "1 < length (sub_trajectory unresolvable_solution)"
    by (simp add: unresolvable_solution_def)
  have before: "\<forall>j < 1. \<not> segment_fails ?ctx (sub_trajectory unresolvable_solution ! j)
      (running_state ?ctx (getCurrentState ?ctx) (sub_trajectory unresolvable_solution) j)"
    by (simp add: example_segments unresolvable_solution_def)
  have fails: "resolution_fails ?ctx (sub_trajectory unresolvable_solution ! 1)"
    by (simp add: example_segments unresolvable_solution_def)
  have msg: "not_found_message [''elbow'', ''finger''] =
     ''Could not find JointModelGroup that actuates {elbow, finger}''"
    by (simp add: not_found_message_def)
  have names: "sub_trajectory_joint_names (sub_trajectory unresolvable_solution ! 1) =
      [''elbow'', ''finger'']"
    by (simp add: unresolvable_solution_def move_simps)
  show ?thesis
    by (rule conjI [OF msg conjI [OF names
          constructMotionPlan_names_unresolved_joints [OF known k before fails, of "\<lparr>plan_components = []\<rparr>" "[]"]]])
qed

subsection \<open>C9\<close>

text \<open>
  Claim C9. For every goal, on a model whose groups name known joints, \<open>execCallback\<close>
  returns and its trace ends with a terminal call before which there is no terminal call:
  exactly one terminal transition, and nothing, in particular no feedback, after it. The
  engine is absent or is the model of the specification's execution engine, which returns
  only after the effects it invoked.
\<close>

theorem execCallback_one_terminal_last:
  assumes "known_joints (getRobotModel ctx)"
    and "plan_execution ctx = None \<or>
         plan_execution ctx = Some (engine_model segment_status effect_failure)"
  shows "\<exists>w pre t.
           execCallback ctx goal = Inr w \<and>
           trace w = pre @ [t] \<and>
           is_terminal t \<and>
           filter is_terminal pre = []"
proof (cases "plan_execution ctx")
  case None
  from execCallback_disabled [OF None, of goal]
  have "execCallback ctx goal =
         Inr \<lparr>trace = [SetAborted CONTROL_FAILED disabled_response],
              goal_sub_trajectory = sub_trajectory (solution goal)\<rparr> \<and>
        trace \<lparr>trace = [SetAborted CONTROL_FAILED disabled_response],
              goal_sub_trajectory = sub_trajectory (solution goal)\<rparr> =
          [] @ [SetAborted CONTROL_FAILED disabled_response] \<and>
        is_terminal (SetAborted CONTROL_FAILED disabled_response) \<and>
        filter is_terminal [] = []" by simp
  then show ?thesis by blast
next
  case (Some e)
  with assms(2) have engine: "plan_execution ctx = Some (engine_model segment_status effect_failure)"
    by simp
  let ?subs = "sub_trajectory (solution goal)"
  obtain ok plan tr where
    b: "constructMotionPlan ctx (solution goal) \<lparr>plan_components = []\<rparr> [] = Inr (ok, plan, tr)"
    using constructMotionPlan_returns [OF assms(1)] by blast
  from constructMotionPlan_Inr [OF b] obtain new ev where
    n: "tr = LockedPlanningSceneRO # ev"
    and post: "loop_post ctx (length ?subs) 0 ?subs (getCurrentState ctx) ok new ev"
    by auto
  from post have "list_all is_build_event ev" unfolding loop_post_def by simp
  from build_events_silent [OF this] n have q: "filter is_terminal tr = []" by simp
  show ?thesis
  proof (cases ok)
    case False
    with b have "constructMotionPlan ctx (solution goal) \<lparr>plan_components = []\<rparr> [] =
        Inr (False, plan, tr)" by simp
    from execCallback_build_failed [OF engine this] q
    have "execCallback ctx goal =
         Inr \<lparr>trace = tr @ [SetAborted INVALID_MOTION_PLAN (toString ctx INVALID_MOTION_PLAN)],
              goal_sub_trajectory = ?subs\<rparr> \<and>
        trace \<lparr>trace = tr @ [SetAborted INVALID_MOTION_PLAN (toString ctx INVALID_MOTION_PLAN)],
              goal_sub_trajectory = ?subs\<rparr> =
          tr @ [SetAborted INVALID_MOTION_PLAN (toString ctx INVALID_MOTION_PLAN)] \<and>
        is_terminal (SetAborted INVALID_MOTION_PLAN (toString ctx INVALID_MOTION_PLAN)) \<and>
        filter is_terminal tr = []" by simp
    then show ?thesis by blast
  next
    case True
    with b have b': "constructMotionPlan ctx (solution goal) \<lparr>plan_components = []\<rparr> [] =
        Inr (True, plan, tr)" by simp
    obtain val w1 where
      r: "engine_model segment_status effect_failure plan (handed_over plan tr ?subs) = (val, w1)"
      by (cases "engine_model segment_status effect_failure plan (handed_over plan tr ?subs)")
    then have "run_components segment_status effect_failure 0 (plan_components plan)
        (handed_over plan tr ?subs) = (val, w1)" by (simp add: engine_model_def)
    from run_components_no_terminal [OF built_effects_of_plan [OF b'] this] obtain ev1 where
      "trace w1 = trace (handed_over plan tr ?subs) @ ev1" "filter is_terminal ev1 = []" by blast
    with q have z: "filter is_terminal (trace w1) = []" by (simp add: handed_over_def)
    from set_result_trace [of val "toString ctx val" w1] obtain t where
      "trace (set_result val (toString ctx val) w1) = trace w1 @ [t]" "is_terminal t" by blast
    with execCallback_executed [OF engine b' r] z show ?thesis by blast
  qed
qed

text \<open>
  C9 on a goal of one segment, with an engine that is stopped and without an engine.
\<close>

theorem execCallback_one_terminal_last_witness:
  "(\<exists>w pre t.
      execCallback (example_context (Some stops_at_once))
        (example_goal [move [''finger''] no_diff]) = Inr w \<and>
      trace w = pre @ [t] \<and> is_terminal t \<and> filter is_terminal pre = []) \<and>
   (\<exists>w pre t.
      execCallback (example_context None) (example_goal [move [''finger''] no_diff]) = Inr w \<and>
      trace w = pre @ [t] \<and> is_terminal t \<and> filter is_terminal pre = [])"
proof -
  have k1: "known_joints (getRobotModel (example_context (Some stops_at_once)))"
    and k2: "known_joints (getRobotModel (example_context None))"
    by (simp_all add: example_context_simps example_model_known)
  have e1: "plan_execution (example_context (Some stops_at_once)) = None \<or>
      plan_execution (example_context (Some stops_at_once)) =
        Some (engine_model (\<lambda>k. PREEMPTED) PREEMPTED)"
    by (simp add: example_context_simps stops_at_once_def)
  have e2: "plan_execution (example_context None) = None \<or>
      plan_execution (example_context None) = Some (engine_model (\<lambda>k. PREEMPTED) PREEMPTED)"
    by (simp add: example_context_simps)
  show ?thesis using execCallback_one_terminal_last [OF k1 e1] execCallback_one_terminal_last [OF k2 e2] by (rule conjI)
qed

subsection \<open>C10\<close>

text \<open>
  Claim C10. For a solution without sub-trajectories, \<open>constructMotionPlan\<close> returns true
  with an empty plan, having only locked the planning scene: no iteration, no group
  resolved. \<open>execCallback\<close> hands the empty plan to the engine, and whatever code and state
  the engine returns, it ends in that state with one terminal call more, which carries that
  code and its text and is \<^verbatim>\<open>setSucceeded\<close> exactly for \<^verbatim>\<open>SUCCESS\<close>, \<^verbatim>\<open>setPreempted\<close> exactly
  for \<^verbatim>\<open>PREEMPTED\<close> and \<^verbatim>\<open>setAborted\<close> exactly for every other code. With the model of the
  specification's engine the code is \<^verbatim>\<open>SUCCESS\<close> and the whole trace has four events, none
  of them a feedback.
\<close>

theorem execCallback_empty_solution:
  fixes ctx :: "'s MoveGroupContext"
  assumes "sub_trajectory (solution goal) = []"
    and "plan_execution ctx = Some executeAndMonitor"
  shows "constructMotionPlan ctx (solution goal) \<lparr>plan_components = []\<rparr> [] =
           Inr (True, \<lparr>plan_components = []\<rparr>, [LockedPlanningSceneRO]) \<and>
         (\<forall>val w1.
            executeAndMonitor \<lparr>plan_components = []\<rparr>
              \<lparr>trace = [LockedPlanningSceneRO, RosInfo ''Executing TaskSolution'',
                        ExecuteAndMonitor []],
               goal_sub_trajectory = []\<rparr> = (val, w1) \<longrightarrow>
            (\<exists>t state.
               execCallback ctx goal = Inr (w1\<lparr>trace := trace w1 @ [t]\<rparr>) \<and>
               terminal_outcome t = Some (state, val, toString ctx val) \<and>
               (state = Succeeded \<longleftrightarrow> val = SUCCESS) \<and>
               (state = Preempted \<longleftrightarrow> val = PREEMPTED) \<and>
               (state = Aborted \<longleftrightarrow> val \<noteq> SUCCESS \<and> val \<noteq> PREEMPTED))) \<and>
         (executeAndMonitor = engine_model segment_status effect_failure \<longrightarrow>
            execCallback ctx goal =
              Inr \<lparr>trace = [LockedPlanningSceneRO, RosInfo ''Executing TaskSolution'',
                            ExecuteAndMonitor [], SetSucceeded SUCCESS (toString ctx SUCCESS)],
                   goal_sub_trajectory = []\<rparr>)"
proof -
  let ?handed = "\<lparr>trace = [LockedPlanningSceneRO, RosInfo ''Executing TaskSolution'',
                           ExecuteAndMonitor []],
                  goal_sub_trajectory = []\<rparr>"
  have b: "constructMotionPlan ctx (solution goal) \<lparr>plan_components = []\<rparr> [] =
           Inr (True, \<lparr>plan_components = []\<rparr>, [LockedPlanningSceneRO])"
    using assms(1) by (simp add: constructMotionPlan_def)
  have h: "handed_over (\<lparr>plan_components = []\<rparr> :: 's ExecutableMotionPlan)
             [LockedPlanningSceneRO]
             (sub_trajectory (solution goal)) = ?handed"
    using assms(1) by (simp add: handed_over_def)
  have any: "\<exists>t state.
               execCallback ctx goal = Inr (w1\<lparr>trace := trace w1 @ [t]\<rparr>) \<and>
               terminal_outcome t = Some (state, val, toString ctx val) \<and>
               (state = Succeeded \<longleftrightarrow> val = SUCCESS) \<and>
               (state = Preempted \<longleftrightarrow> val = PREEMPTED) \<and>
               (state = Aborted \<longleftrightarrow> val \<noteq> SUCCESS \<and> val \<noteq> PREEMPTED)"
    if r: "executeAndMonitor \<lparr>plan_components = []\<rparr> ?handed = (val, w1)" for val w1
  proof -
    from r h have "executeAndMonitor \<lparr>plan_components = []\<rparr>
        (handed_over (\<lparr>plan_components = []\<rparr> :: 's ExecutableMotionPlan)
           [LockedPlanningSceneRO] (sub_trajectory (solution goal))) = (val, w1)" by simp
    from execCallback_executed [OF assms(2) b this]
    have "execCallback ctx goal = Inr (set_result val (toString ctx val) w1)" .
    with set_result_state [of val "toString ctx val" w1] show ?thesis by auto
  qed
  have m: "execCallback ctx goal =
              Inr \<lparr>trace = [LockedPlanningSceneRO, RosInfo ''Executing TaskSolution'',
                            ExecuteAndMonitor [], SetSucceeded SUCCESS (toString ctx SUCCESS)],
                   goal_sub_trajectory = []\<rparr>"
    if "executeAndMonitor = engine_model segment_status effect_failure"
  proof -
    have "executeAndMonitor \<lparr>plan_components = []\<rparr>
        (handed_over (\<lparr>plan_components = []\<rparr> :: 's ExecutableMotionPlan)
           [LockedPlanningSceneRO] (sub_trajectory (solution goal))) = (SUCCESS, ?handed)"
      unfolding that h by (simp add: engine_model_def)
    from execCallback_executed [OF assms(2) b this] show ?thesis
      by (simp add: set_result_def emit_def)
  qed
  from b any m show ?thesis by blast
qed

text \<open>
  C10 on the example context: with the engine on which every segment succeeds the goal
  succeeds, and with an engine that reports preemption it ends preempted.
\<close>

theorem execCallback_empty_solution_witness:
  "constructMotionPlan (example_context (Some always_succeeds)) (solution (example_goal []))
     \<lparr>plan_components = []\<rparr> [] = Inr (True, \<lparr>plan_components = []\<rparr>, [LockedPlanningSceneRO]) \<and>
   execCallback (example_context (Some always_succeeds)) (example_goal []) =
     Inr \<lparr>trace = [LockedPlanningSceneRO, RosInfo ''Executing TaskSolution'',
                   ExecuteAndMonitor [], SetSucceeded SUCCESS ''SUCCESS''],
          goal_sub_trajectory = []\<rparr> \<and>
   execCallback (example_context (Some reports_preempted)) (example_goal []) =
     Inr \<lparr>trace = [LockedPlanningSceneRO, RosInfo ''Executing TaskSolution'',
                   ExecuteAndMonitor [], SetPreempted PREEMPTED ''PREEMPTED''],
          goal_sub_trajectory = []\<rparr>"
proof -
  let ?handed = "\<lparr>trace = [LockedPlanningSceneRO, RosInfo ''Executing TaskSolution'',
                           ExecuteAndMonitor []],
                  goal_sub_trajectory = []\<rparr>"
  have s: "sub_trajectory (solution (example_goal [])) = []" by (simp add: example_goal_simps)
  have e: "plan_execution (example_context (Some always_succeeds)) = Some always_succeeds"
    by (simp add: example_context_simps)
  have p: "plan_execution (example_context (Some reports_preempted)) = Some reports_preempted"
    by (simp add: example_context_simps)
  have t: "toString (example_context (Some always_succeeds)) SUCCESS = ''SUCCESS''"
    by (simp add: example_context_simps example_toString_def)
  have u: "toString (example_context (Some reports_preempted)) PREEMPTED = ''PREEMPTED''"
    by (simp add: example_context_simps example_toString_def PREEMPTED_def SUCCESS_def)
  have m: "always_succeeds = engine_model (\<lambda>k. SUCCESS) PREEMPTED"
    by (simp add: always_succeeds_def)
  note a = execCallback_empty_solution [OF s e, of "\<lambda>k. SUCCESS" PREEMPTED]
  note b = execCallback_empty_solution [OF s p, of "\<lambda>k. SUCCESS" PREEMPTED]
  from a have 1: "constructMotionPlan (example_context (Some always_succeeds))
      (solution (example_goal [])) \<lparr>plan_components = []\<rparr> [] =
      Inr (True, \<lparr>plan_components = []\<rparr>, [LockedPlanningSceneRO])" by (rule conjunct1)
  from a [THEN conjunct2, THEN conjunct2, rule_format, OF m]
  have 2: "execCallback (example_context (Some always_succeeds)) (example_goal []) =
     Inr \<lparr>trace = [LockedPlanningSceneRO, RosInfo ''Executing TaskSolution'',
                   ExecuteAndMonitor [], SetSucceeded SUCCESS ''SUCCESS''],
          goal_sub_trajectory = []\<rparr>" unfolding t .
  have r: "reports_preempted \<lparr>plan_components = []\<rparr> ?handed = (PREEMPTED, ?handed)"
    by (simp add: reports_preempted_def)
  from b [THEN conjunct2, THEN conjunct1, rule_format, OF r] obtain t' state where
    x: "execCallback (example_context (Some reports_preempted)) (example_goal []) =
          Inr (?handed\<lparr>trace := trace ?handed @ [t']\<rparr>)"
      "terminal_outcome t' = Some (state, PREEMPTED, ''PREEMPTED'')"
      "state = Preempted \<longleftrightarrow> PREEMPTED = PREEMPTED"
    unfolding u by blast
  from x(2,3) have "t' = SetPreempted PREEMPTED ''PREEMPTED''"
    by (simp add: terminal_outcome_Preempted)
  with x(1) have 3: "execCallback (example_context (Some reports_preempted)) (example_goal []) =
     Inr \<lparr>trace = [LockedPlanningSceneRO, RosInfo ''Executing TaskSolution'',
                   ExecuteAndMonitor [], SetPreempted PREEMPTED ''PREEMPTED''],
          goal_sub_trajectory = []\<rparr>" by simp
  from 1 2 3 show ?thesis by (intro conjI)
qed

end
